theory Spec2Isabelle
  imports Complex_Main
begin

section \<open>The particle simulation of \<^verbatim>\<open>src/App.tsx\<close>\<close>

text \<open>
  The step of a particle is modelled twice. In the first model the numbers are the
  reals, as the data model of the specification has them (positions, radii and
  velocities are real-valued), and the rounding of the machine arithmetic is not
  represented: \<^verbatim>\<open>Math.sqrt\<close>, \<^verbatim>\<open>Math.min\<close> and \<^verbatim>\<open>Math.max\<close> are \<open>sqrt\<close>, \<open>min\<close>
  and \<open>max\<close>. The second model, further down, is the same step in the binary64
  arithmetic of the program, each operation rounded; the frames of the animation and the
  decay of the velocity, where the rounding decides what happens, are stated on it.
\<close>

subsection \<open>Constants (settings)\<close>

definition MAX_PARTICLES :: nat where
  "MAX_PARTICLES = 120"

definition MAX_PARTICLE_SIZE :: real where
  "MAX_PARTICLE_SIZE = 15"

definition MIN_PARTICLE_SIZE :: real where
  "MIN_PARTICLE_SIZE = 5"

definition MOUSE_COLLISION_RADIUS :: real where
  "MOUSE_COLLISION_RADIUS = 10"

definition PARTICLE_COLLISION_VELOCITY :: real where
  "PARTICLE_COLLISION_VELOCITY = 0.005"

definition PARTICLE_VELOCITY_LEAK_MODIFIER :: real where
  "PARTICLE_VELOCITY_LEAK_MODIFIER = 0.002"

subsection \<open>Data\<close>

text \<open>
  \<^verbatim>\<open>type TMouseCords = { x: number; y: number }\<close>. A particle has the fields
  \<^verbatim>\<open>x\<close> and \<^verbatim>\<open>y\<close> too, and \<^verbatim>\<open>collideWithRadius\<close> is called with the pointer and
  with a particle as its \<^verbatim>\<open>cords\<close>: the particle record extends the coordinates.
  The field \<^verbatim>\<open>size\<close> is \<open>size_p\<close> here.
\<close>

record TMouseCords =
  x :: real
  y :: real

datatype TCanvasMode = collision | edit

record Particle = TMouseCords +
  size_p :: real
  dirX :: real
  dirY :: real
  color :: string

text \<open>The two attributes of the canvas element that \<^verbatim>\<open>move\<close> reads.\<close>

record HTMLCanvasElement =
  width :: real
  height :: real

subsection \<open>\<^verbatim>\<open>Particle.collideWithRadius\<close> (lines 45-64)\<close>

definition collideWithRadius ::
  "Particle \<Rightarrow> 'a TMouseCords_scheme \<Rightarrow> real \<Rightarrow> Particle" where
  "collideWithRadius this cords collisionRadius =
     (let distanceX = x cords - x this;
          distanceY = y cords - y this;
          distance = sqrt (distanceX * distanceX + distanceY * distanceY)
      in if distance < collisionRadius + size_p this then
           (let this1 = (if x this < x cords
                         then this\<lparr>dirX := dirX this + - PARTICLE_COLLISION_VELOCITY\<rparr>
                         else this);
                this2 = (if x this1 > x cords
                         then this1\<lparr>dirX := dirX this1 + PARTICLE_COLLISION_VELOCITY\<rparr>
                         else this1);
                this3 = (if y this2 < y cords
                         then this2\<lparr>dirY := dirY this2 + - PARTICLE_COLLISION_VELOCITY\<rparr>
                         else this2);
                this4 = (if y this3 > y cords
                         then this3\<lparr>dirY := dirY this3 + PARTICLE_COLLISION_VELOCITY\<rparr>
                         else this3)
            in this4)
         else this)"

text \<open>
  The condition of line 50 on its own: the collision test of \<open>this\<close> against the
  point \<open>cords\<close> with the threshold \<open>collisionRadius + size\<close>.
\<close>

definition collides :: "Particle \<Rightarrow> 'a TMouseCords_scheme \<Rightarrow> real \<Rightarrow> bool" where
  "collides this cords collisionRadius =
     (let distanceX = x cords - x this;
          distanceY = y cords - y this;
          distance = sqrt (distanceX * distanceX + distanceY * distanceY)
      in distance < collisionRadius + size_p this)"

subsection \<open>\<^verbatim>\<open>Particle.move\<close> (lines 66-101)\<close>

text \<open>
  The loop of lines 73-77 over \<^verbatim>\<open>particlesArr\<close>. The objects of the array are
  told apart by reference: \<open>self\<close> is the index at which the array holds \<open>this\<close>
  itself (\<^verbatim>\<open>this === p1\<close>), and that entry is skipped, so the loop never reads it.
\<close>

function collideWithOthers :: "Particle \<Rightarrow> Particle list \<Rightarrow> nat \<Rightarrow> nat \<Rightarrow> Particle" where
  "collideWithOthers this particlesArr self i =
     (if i < length particlesArr then
        (let p1 = particlesArr ! i
         in if i = self then collideWithOthers this particlesArr self (i + 1)
            else collideWithOthers (collideWithRadius this p1 (size_p p1)) particlesArr self (i + 1))
      else this)"
  by pat_completeness auto
termination
  by (relation "measure (\<lambda>(this, particlesArr, self, i). length particlesArr - i)") auto

declare collideWithOthers.simps [simp del]

text \<open>Lines 69-77: the collision with the mouse, then with the other particles.\<close>

definition collisions ::
  "Particle \<Rightarrow> TMouseCords \<Rightarrow> Particle list \<Rightarrow> nat \<Rightarrow> TCanvasMode \<Rightarrow> Particle" where
  "collisions this mousePos particlesArr self mode =
     (let this1 = (if mode = collision
                   then collideWithRadius this mousePos MOUSE_COLLISION_RADIUS
                   else this)
      in collideWithOthers this1 particlesArr self 0)"

text \<open>
  Lines 79-90: bouncing out of the border, the X check and then the Y check.
  \<open>borderX\<close> and \<open>borderY\<close> are the conditions of lines 80 and 86.
\<close>

definition borderX :: "HTMLCanvasElement \<Rightarrow> Particle \<Rightarrow> bool" where
  "borderX canvas this \<longleftrightarrow>
     x this + size_p this \<ge> width canvas \<or> x this - size_p this \<le> 0"

definition borderY :: "HTMLCanvasElement \<Rightarrow> Particle \<Rightarrow> bool" where
  "borderY canvas this \<longleftrightarrow>
     y this + size_p this \<ge> height canvas \<or> y this - size_p this \<le> 0"

definition bounceX :: "HTMLCanvasElement \<Rightarrow> Particle \<Rightarrow> Particle" where
  "bounceX canvas this =
     (if borderX canvas this then
        this\<lparr>dirX := dirX this * (- 0.5),
             dirY := dirY this * 0.5,
             x := min (max (size_p this) (x this)) (width canvas - size_p this)\<rparr>
      else this)"

definition bounceY :: "HTMLCanvasElement \<Rightarrow> Particle \<Rightarrow> Particle" where
  "bounceY canvas this =
     (if borderY canvas this then
        this\<lparr>dirY := dirY this * (- 0.5),
             dirX := dirX this * 0.5,
             y := min (max (size_p this) (y this)) (height canvas - size_p this)\<rparr>
      else this)"

definition bounce :: "HTMLCanvasElement \<Rightarrow> Particle \<Rightarrow> Particle" where
  "bounce canvas this = bounceY canvas (bounceX canvas this)"

text \<open>Lines 92-94: the main movement.\<close>

definition mainMovement :: "Particle \<Rightarrow> Particle" where
  "mainMovement this = this\<lparr>x := x this + dirX this, y := y this + dirY this\<rparr>"

text \<open>
  Lines 96-100: the velocity leak, in exact arithmetic. What the rounding of the program
  makes of these two assignments is \<open>velocityLeak64\<close> below.
\<close>

definition velocityLeak :: "bool \<Rightarrow> Particle \<Rightarrow> Particle" where
  "velocityLeak velocity_leak this =
     (if velocity_leak then
        this\<lparr>dirX := dirX this - dirX this * PARTICLE_VELOCITY_LEAK_MODIFIER,
             dirY := dirY this - dirY this * PARTICLE_VELOCITY_LEAK_MODIFIER\<rparr>
      else this)"

text \<open>
  The method. \<open>canvas\<close> is the canvas the particle holds, with its present width and
  height; it is \<open>None\<close> when the guard of line 67 (\<^verbatim>\<open>!this.canvas || !this.ctx\<close>)
  returns early, and the particle is left as it is.
\<close>

definition move ::
  "Particle \<Rightarrow> HTMLCanvasElement option \<Rightarrow> TMouseCords \<Rightarrow> Particle list \<Rightarrow> nat \<Rightarrow>
   TCanvasMode \<Rightarrow> bool \<Rightarrow> Particle" where
  "move this canvas mousePos particlesArr self mode velocity_leak =
     (case canvas of
        None \<Rightarrow> this
      | Some cv \<Rightarrow>
          velocityLeak velocity_leak
            (mainMovement
              (bounce cv
                (collisions this mousePos particlesArr self mode))))"

subsection \<open>\<^verbatim>\<open>findParticleWithCords\<close> (lines 122-123)\<close>

text \<open>\<^verbatim>\<open>Array.prototype.find\<close> is \<open>find\<close>, and \<^verbatim>\<open>undefined\<close> is \<open>None\<close>.\<close>

definition findParticleWithCords :: "Particle list \<Rightarrow> real \<Rightarrow> real \<Rightarrow> Particle option" where
  "findParticleWithCords particles px py =
     find (\<lambda>p. x p - size_p p \<le> px \<and> x p + size_p p \<ge> px \<and>
               y p - size_p p \<le> py \<and> y p + size_p p \<ge> py) particles"

section \<open>The step in binary64\<close>

subsection \<open>Binary64 arithmetic\<close>

text \<open>
  The numbers of the program are IEEE 754 binary64 values: every finite one is a whole
  multiple of \<open>1 / 2 ^ 1074\<close> with at most 53 significant bits, and every operation gives
  the exact result rounded to the nearest such value, a tie going to the even one.
  \<open>roundHalfEven\<close> rounds to the nearest integer, ties to even; \<open>expo n\<close> is the number of
  low bits that a whole number of at least \<open>2 ^ 53\<close> loses; \<open>round53\<close> rounds a
  non-negative real, counted in units of \<open>1 / 2 ^ 1074\<close>, to 53 significant bits;
  \<open>round64\<close> is the rounding of a real to binary64. The exponent is not bounded above
  here: overflow to \<^verbatim>\<open>Infinity\<close> is not represented, and \<open>isDouble\<close> says that a real is a
  finite binary64 value (a fixed point of the rounding, at most the largest finite value
  \<open>(2 ^ 53 - 1) * 2 ^ 971\<close>).
\<close>

definition roundHalfEven :: "real \<Rightarrow> int" where
  "roundHalfEven r =
     (let f = \<lfloor>r\<rfloor>; d = r - of_int f
      in if d < 1/2 then f else if d > 1/2 then f + 1 else if even f then f else f + 1)"

function expo :: "nat \<Rightarrow> nat" where
  "expo n = (if n < 2 ^ 53 then 0 else Suc (expo (n div 2)))"
  by pat_completeness auto
termination
  by (relation "measure (\<lambda>n. n)") auto

declare expo.simps [simp del]

definition round53 :: "real \<Rightarrow> real" where
  "round53 s = (let e = expo (nat \<lfloor>s\<rfloor>) in of_int (roundHalfEven (s / 2 ^ e)) * 2 ^ e)"

definition round64 :: "real \<Rightarrow> real" where
  "round64 r = sgn r * (round53 (\<bar>r\<bar> * 2 ^ 1074) / 2 ^ 1074)"

definition isDouble :: "real \<Rightarrow> bool" where
  "isDouble v \<longleftrightarrow> round64 v = v \<and> \<bar>v\<bar> \<le> (2 ^ 53 - 1) * 2 ^ 971"

text \<open>The operations \<^verbatim>\<open>+\<close>, \<^verbatim>\<open>-\<close>, \<^verbatim>\<open>*\<close> and \<^verbatim>\<open>Math.sqrt\<close> of the program.\<close>

definition add64 :: "real \<Rightarrow> real \<Rightarrow> real" where
  "add64 a b = round64 (a + b)"

definition sub64 :: "real \<Rightarrow> real \<Rightarrow> real" where
  "sub64 a b = round64 (a - b)"

definition mul64 :: "real \<Rightarrow> real \<Rightarrow> real" where
  "mul64 a b = round64 (a * b)"

definition sqrt64 :: "real \<Rightarrow> real" where
  "sqrt64 a = round64 (sqrt a)"

text \<open>
  The literals \<^verbatim>\<open>0.005\<close> and \<^verbatim>\<open>0.002\<close> of lines 10 and 11 are not binary64 values: the
  program holds the values nearest to them. The other literals (\<^verbatim>\<open>10\<close>, \<^verbatim>\<open>0.5\<close>, \<^verbatim>\<open>0\<close>)
  are exact.
\<close>

definition COLLISION64 :: real where
  "COLLISION64 = round64 PARTICLE_COLLISION_VELOCITY"

definition LEAK64 :: real where
  "LEAK64 = round64 PARTICLE_VELOCITY_LEAK_MODIFIER"

subsection \<open>\<^verbatim>\<open>Particle.collideWithRadius\<close> and \<^verbatim>\<open>Particle.move\<close> in binary64\<close>

text \<open>
  The definitions of the first model again, line by line, with the operations of the
  program in place of the exact ones. Comparisons, \<^verbatim>\<open>Math.min\<close>, \<^verbatim>\<open>Math.max\<close> and the
  unary minus are exact in binary64.
\<close>

definition collides64 :: "Particle \<Rightarrow> 'a TMouseCords_scheme \<Rightarrow> real \<Rightarrow> bool" where
  "collides64 this cords collisionRadius =
     (let distanceX = sub64 (x cords) (x this);
          distanceY = sub64 (y cords) (y this);
          distance = sqrt64 (add64 (mul64 distanceX distanceX) (mul64 distanceY distanceY))
      in distance < add64 collisionRadius (size_p this))"

definition collideWithRadius64 ::
  "Particle \<Rightarrow> 'a TMouseCords_scheme \<Rightarrow> real \<Rightarrow> Particle" where
  "collideWithRadius64 this cords collisionRadius =
     (let distanceX = sub64 (x cords) (x this);
          distanceY = sub64 (y cords) (y this);
          distance = sqrt64 (add64 (mul64 distanceX distanceX) (mul64 distanceY distanceY))
      in if distance < add64 collisionRadius (size_p this) then
           (let this1 = (if x this < x cords
                         then this\<lparr>dirX := add64 (dirX this) (- COLLISION64)\<rparr>
                         else this);
                this2 = (if x this1 > x cords
                         then this1\<lparr>dirX := add64 (dirX this1) COLLISION64\<rparr>
                         else this1);
                this3 = (if y this2 < y cords
                         then this2\<lparr>dirY := add64 (dirY this2) (- COLLISION64)\<rparr>
                         else this2);
                this4 = (if y this3 > y cords
                         then this3\<lparr>dirY := add64 (dirY this3) COLLISION64\<rparr>
                         else this3)
            in this4)
         else this)"

function collideWithOthers64 :: "Particle \<Rightarrow> Particle list \<Rightarrow> nat \<Rightarrow> nat \<Rightarrow> Particle" where
  "collideWithOthers64 this particlesArr self i =
     (if i < length particlesArr then
        (let p1 = particlesArr ! i
         in if i = self then collideWithOthers64 this particlesArr self (i + 1)
            else collideWithOthers64 (collideWithRadius64 this p1 (size_p p1)) particlesArr self (i + 1))
      else this)"
  by pat_completeness auto
termination
  by (relation "measure (\<lambda>(this, particlesArr, self, i). length particlesArr - i)") auto

declare collideWithOthers64.simps [simp del]

definition collisions64 ::
  "Particle \<Rightarrow> TMouseCords \<Rightarrow> Particle list \<Rightarrow> nat \<Rightarrow> TCanvasMode \<Rightarrow> Particle" where
  "collisions64 this mousePos particlesArr self mode =
     (let this1 = (if mode = collision
                   then collideWithRadius64 this mousePos MOUSE_COLLISION_RADIUS
                   else this)
      in collideWithOthers64 this1 particlesArr self 0)"

definition borderX64 :: "HTMLCanvasElement \<Rightarrow> Particle \<Rightarrow> bool" where
  "borderX64 canvas this \<longleftrightarrow>
     add64 (x this) (size_p this) \<ge> width canvas \<or> sub64 (x this) (size_p this) \<le> 0"

definition borderY64 :: "HTMLCanvasElement \<Rightarrow> Particle \<Rightarrow> bool" where
  "borderY64 canvas this \<longleftrightarrow>
     add64 (y this) (size_p this) \<ge> height canvas \<or> sub64 (y this) (size_p this) \<le> 0"

definition bounceX64 :: "HTMLCanvasElement \<Rightarrow> Particle \<Rightarrow> Particle" where
  "bounceX64 canvas this =
     (if borderX64 canvas this then
        this\<lparr>dirX := mul64 (dirX this) (- 0.5),
             dirY := mul64 (dirY this) 0.5,
             x := min (max (size_p this) (x this)) (sub64 (width canvas) (size_p this))\<rparr>
      else this)"

definition bounceY64 :: "HTMLCanvasElement \<Rightarrow> Particle \<Rightarrow> Particle" where
  "bounceY64 canvas this =
     (if borderY64 canvas this then
        this\<lparr>dirY := mul64 (dirY this) (- 0.5),
             dirX := mul64 (dirX this) 0.5,
             y := min (max (size_p this) (y this)) (sub64 (height canvas) (size_p this))\<rparr>
      else this)"

definition bounce64 :: "HTMLCanvasElement \<Rightarrow> Particle \<Rightarrow> Particle" where
  "bounce64 canvas this = bounceY64 canvas (bounceX64 canvas this)"

definition mainMovement64 :: "Particle \<Rightarrow> Particle" where
  "mainMovement64 this =
     this\<lparr>x := add64 (x this) (dirX this), y := add64 (y this) (dirY this)\<rparr>"

text \<open>
  \<open>leak64\<close> is the assignment of line 98 and of line 99 on one velocity component:
  \<^verbatim>\<open>v -= v * PARTICLE_VELOCITY_LEAK_MODIFIER\<close>.
\<close>

definition leak64 :: "real \<Rightarrow> real" where
  "leak64 v = sub64 v (mul64 v LEAK64)"

definition velocityLeak64 :: "bool \<Rightarrow> Particle \<Rightarrow> Particle" where
  "velocityLeak64 velocity_leak this =
     (if velocity_leak then
        this\<lparr>dirX := leak64 (dirX this), dirY := leak64 (dirY this)\<rparr>
      else this)"

definition move64 ::
  "Particle \<Rightarrow> HTMLCanvasElement option \<Rightarrow> TMouseCords \<Rightarrow> Particle list \<Rightarrow> nat \<Rightarrow>
   TCanvasMode \<Rightarrow> bool \<Rightarrow> Particle" where
  "move64 this canvas mousePos particlesArr self mode velocity_leak =
     (case canvas of
        None \<Rightarrow> this
      | Some cv \<Rightarrow>
          velocityLeak64 velocity_leak
            (mainMovement64
              (bounce64 cv
                (collisions64 this mousePos particlesArr self mode))))"

subsection \<open>The animation frame (lines 180-189)\<close>

text \<open>
  \<^verbatim>\<open>animate\<close> moves the particles one after the other, each against the array as it
  stands at that moment: the particles before it have moved already. The callback of
  \<^verbatim>\<open>forEach\<close> on the particle at index \<open>k\<close> is \<open>moveAt64\<close>; the objects are mutated in
  place, which is the update of the array at \<open>k\<close>. \<^verbatim>\<open>animate\<close> runs only with a canvas
  and a context (lines 176-179), the ones the particles were created with.
\<close>

definition moveAt64 ::
  "HTMLCanvasElement \<Rightarrow> TMouseCords \<Rightarrow> TCanvasMode \<Rightarrow> bool \<Rightarrow> nat \<Rightarrow> Particle list \<Rightarrow>
   Particle list" where
  "moveAt64 canvas boundingMouse mode velocity_leak k particles =
     particles[k := move64 (particles ! k) (Some canvas) boundingMouse particles k mode velocity_leak]"

definition animate64 ::
  "HTMLCanvasElement \<Rightarrow> TMouseCords \<Rightarrow> TCanvasMode \<Rightarrow> bool \<Rightarrow> Particle list \<Rightarrow> Particle list" where
  "animate64 canvas boundingMouse mode velocity_leak particles =
     fold (moveAt64 canvas boundingMouse mode velocity_leak) [0..<length particles] particles"

text \<open>
  \<^verbatim>\<open>requestAnimationFrame(animate)\<close>: the frames follow one another. Frame \<open>n\<close> reads
  the canvas size, the pointer, the mode and the leak switch of that moment, \<open>host n\<close>.
  Edits of a particle by the host between two frames are not part of the model.
\<close>

type_synonym host = "nat \<Rightarrow> HTMLCanvasElement \<times> TMouseCords \<times> TCanvasMode \<times> bool"

primrec frames64 :: "host \<Rightarrow> nat \<Rightarrow> Particle list \<Rightarrow> Particle list" where
  "frames64 host 0 particles = particles"
| "frames64 host (Suc n) particles =
     (case host n of (canvas, boundingMouse, mode, velocity_leak) \<Rightarrow>
        animate64 canvas boundingMouse mode velocity_leak (frames64 host n particles))"

subsection \<open>Frames without collisions and border contact\<close>

text \<open>
  \<open>undisturbed64\<close>: the particle at index \<open>i\<close> of the array meets neither the pointer (in
  collision mode) nor another particle, and neither border check fires for it, so that
  its step is the main movement and the leak alone. \<open>calmFrame64\<close>: in frame \<open>n\<close> of a
  run the leak is on and the particle at \<open>i\<close> is undisturbed when its turn comes, that is
  in the array in which the particles before \<open>i\<close> have moved already.
\<close>

definition undisturbed64 ::
  "HTMLCanvasElement \<Rightarrow> TMouseCords \<Rightarrow> TCanvasMode \<Rightarrow> Particle list \<Rightarrow> nat \<Rightarrow> bool" where
  "undisturbed64 canvas boundingMouse mode particles i \<longleftrightarrow>
     (mode = collision \<longrightarrow> \<not> collides64 (particles ! i) boundingMouse MOUSE_COLLISION_RADIUS) \<and>
     (\<forall>j < length particles. j \<noteq> i \<longrightarrow>
        \<not> collides64 (particles ! i) (particles ! j) (size_p (particles ! j))) \<and>
     \<not> borderX64 canvas (particles ! i) \<and> \<not> borderY64 canvas (particles ! i)"

definition calmFrame64 :: "host \<Rightarrow> Particle list \<Rightarrow> nat \<Rightarrow> nat \<Rightarrow> bool" where
  "calmFrame64 host particles i n \<longleftrightarrow>
     (case host n of (canvas, boundingMouse, mode, velocity_leak) \<Rightarrow>
        velocity_leak \<and>
        undisturbed64 canvas boundingMouse mode
          (fold (moveAt64 canvas boundingMouse mode velocity_leak) [0..<i] (frames64 host n particles)) i)"

subsection \<open>An example run\<close>

text \<open>
  An arena of 200 by 200 with the pointer at \<open>(40, 20)\<close>, collision mode, the leak on, in
  every frame, and one particle of radius 10 at \<open>(100, 100)\<close>; \<open>run_particle k\<close> is that
  particle with the velocity \<open>(k / 2 ^ 1074, 0)\<close>.
\<close>

abbreviation run_host :: host where
  "run_host \<equiv> (\<lambda>n. (\<lparr>width = 200, height = 200\<rparr>, \<lparr>x = 40, y = 20\<rparr>, collision, True))"

abbreviation run_particle :: "real \<Rightarrow> Particle" where
  "run_particle k \<equiv>
     \<lparr>x = 100, y = 100, size_p = 10, dirX = k / 2 ^ 1074, dirY = 0, color = ''#ff0000''\<rparr>"


section \<open>Properties\<close>

subsection \<open>Auxiliary facts\<close>

lemma collideWithRadius_collides:
  "collideWithRadius this cords r =
     (if collides this cords r then
        this\<lparr>dirX := dirX this + (if x this < x cords then - PARTICLE_COLLISION_VELOCITY else 0)
                               + (if x this > x cords then PARTICLE_COLLISION_VELOCITY else 0),
             dirY := dirY this + (if y this < y cords then - PARTICLE_COLLISION_VELOCITY else 0)
                               + (if y this > y cords then PARTICLE_COLLISION_VELOCITY else 0)\<rparr>
      else this)"
  by (simp add: collideWithRadius_def collides_def Let_def)

lemma collideWithRadius_frame [simp]:
  "x (collideWithRadius this cords r) = x this"
  "y (collideWithRadius this cords r) = y this"
  "size_p (collideWithRadius this cords r) = size_p this"
  "color (collideWithRadius this cords r) = color this"
  by (simp_all add: collideWithRadius_collides)

lemma collideWithRadius_miss:
  "\<not> collides this cords r \<Longrightarrow> collideWithRadius this cords r = this"
  by (simp add: collideWithRadius_collides)

lemma collides_frame:
  "x this' = x this \<Longrightarrow> y this' = y this \<Longrightarrow> size_p this' = size_p this \<Longrightarrow>
   collides this' cords r = collides this cords r"
  by (simp add: collides_def)

lemma collideWithOthers_done:
  "\<not> i < length ps \<Longrightarrow> collideWithOthers this ps self i = this"
  by (simp add: collideWithOthers.simps [of this ps self i])

lemma collideWithOthers_skip:
  "i < length ps \<Longrightarrow> i = self \<Longrightarrow>
   collideWithOthers this ps self i = collideWithOthers this ps self (i + 1)"
  by (simp add: collideWithOthers.simps [of this ps self self] Let_def)

lemma collideWithOthers_step:
  "i < length ps \<Longrightarrow> i \<noteq> self \<Longrightarrow>
   collideWithOthers this ps self i =
     collideWithOthers (collideWithRadius this (ps ! i) (size_p (ps ! i))) ps self (i + 1)"
  by (simp add: collideWithOthers.simps [of this ps self i] Let_def)

lemma collideWithOthers_frame_all:
  "x (collideWithOthers this ps self i) = x this \<and>
   y (collideWithOthers this ps self i) = y this \<and>
   size_p (collideWithOthers this ps self i) = size_p this \<and>
   color (collideWithOthers this ps self i) = color this"
proof (induction this ps self i rule: collideWithOthers.induct)
  case (1 this ps self i)
  show ?case
  proof (cases "i < length ps")
    case False
    then show ?thesis by (simp add: collideWithOthers_done)
  next
    case True
    show ?thesis
    proof (cases "i = self")
      case True
      from "1.IH"(1) [OF \<open>i < length ps\<close> refl True] show ?thesis
        by (simp add: collideWithOthers_skip [OF \<open>i < length ps\<close> True])
    next
      case False
      from "1.IH"(2) [OF \<open>i < length ps\<close> refl False] show ?thesis
        by (simp add: collideWithOthers_step [OF \<open>i < length ps\<close> False])
    qed
  qed
qed

lemma collideWithOthers_frame [simp]:
  "x (collideWithOthers this ps self i) = x this"
  "y (collideWithOthers this ps self i) = y this"
  "size_p (collideWithOthers this ps self i) = size_p this"
  "color (collideWithOthers this ps self i) = color this"
  using collideWithOthers_frame_all [of this ps self i] by simp_all

lemma collideWithOthers_miss:
  "(\<forall>j. i \<le> j \<and> j < length ps \<and> j \<noteq> self \<longrightarrow> \<not> collides this (ps ! j) (size_p (ps ! j))) \<Longrightarrow>
   collideWithOthers this ps self i = this"
proof (induction this ps self i rule: collideWithOthers.induct)
  case (1 this ps self i)
  note miss = \<open>\<forall>j. i \<le> j \<and> j < length ps \<and> j \<noteq> self \<longrightarrow> \<not> collides this (ps ! j) (size_p (ps ! j))\<close>
  show ?case
  proof (cases "i < length ps")
    case False
    then show ?thesis by (simp add: collideWithOthers_done)
  next
    case True
    from miss have later:
      "\<forall>j. i + 1 \<le> j \<and> j < length ps \<and> j \<noteq> self \<longrightarrow> \<not> collides this (ps ! j) (size_p (ps ! j))"
      by simp
    show ?thesis
    proof (cases "i = self")
      case True
      have "collideWithOthers this ps self (i + 1) = this"
        using "1.IH"(1) [OF \<open>i < length ps\<close> refl True later] .
      then show ?thesis
        by (simp add: collideWithOthers_skip [OF \<open>i < length ps\<close> True])
    next
      case False
      with \<open>i < length ps\<close> miss have "\<not> collides this (ps ! i) (size_p (ps ! i))"
        by simp
      then have m: "collideWithRadius this (ps ! i) (size_p (ps ! i)) = this"
        by (rule collideWithRadius_miss)
      have "collideWithOthers (collideWithRadius this (ps ! i) (size_p (ps ! i))) ps self (i + 1)
            = collideWithRadius this (ps ! i) (size_p (ps ! i))"
        using "1.IH"(2) [OF \<open>i < length ps\<close> refl False] later m by simp
      with m show ?thesis
        by (simp add: collideWithOthers_step [OF \<open>i < length ps\<close> False])
    qed
  qed
qed

lemma collisions_frame [simp]:
  "x (collisions this m ps self mode) = x this"
  "y (collisions this m ps self mode) = y this"
  "size_p (collisions this m ps self mode) = size_p this"
  "color (collisions this m ps self mode) = color this"
  by (simp_all add: collisions_def Let_def)

lemma move_Some:
  "move this (Some cv) mousePos ps self mode leak =
     velocityLeak leak (mainMovement (bounce cv (collisions this mousePos ps self mode)))"
  by (simp add: move_def)

lemma velocityLeak_frame [simp]:
  "x (velocityLeak leak this) = x this"
  "y (velocityLeak leak this) = y this"
  "size_p (velocityLeak leak this) = size_p this"
  "color (velocityLeak leak this) = color this"
  by (simp_all add: velocityLeak_def)

lemma mainMovement_sel [simp]:
  "x (mainMovement this) = x this + dirX this"
  "y (mainMovement this) = y this + dirY this"
  "dirX (mainMovement this) = dirX this"
  "dirY (mainMovement this) = dirY this"
  "size_p (mainMovement this) = size_p this"
  "color (mainMovement this) = color this"
  by (simp_all add: mainMovement_def)

lemma bounce_frame [simp]:
  "size_p (bounce cv this) = size_p this"
  "color (bounce cv this) = color this"
  by (simp_all add: bounce_def bounceX_def bounceY_def)

lemma borderY_bounceX [simp]: "borderY cv (bounceX cv this) = borderY cv this"
  by (simp add: borderY_def bounceX_def)

lemma bounce_quiet:
  "\<not> borderX cv this \<Longrightarrow> \<not> borderY cv this \<Longrightarrow> bounce cv this = this"
  by (simp add: bounce_def bounceX_def bounceY_def)

lemma collisions_miss:
  assumes "mode = collision \<longrightarrow> \<not> collides this mousePos MOUSE_COLLISION_RADIUS"
    and "\<forall>j. j < length ps \<and> j \<noteq> self \<longrightarrow> \<not> collides this (ps ! j) (size_p (ps ! j))"
  shows "collisions this mousePos ps self mode = this"
proof -
  have "collideWithOthers this ps self 0 = this"
    using assms(2) by (intro collideWithOthers_miss) simp
  moreover have "(if mode = collision
                  then collideWithRadius this mousePos MOUSE_COLLISION_RADIUS else this) = this"
    using assms(1) by (simp add: collideWithRadius_miss)
  ultimately show ?thesis by (simp add: collisions_def Let_def)
qed

lemma bounce_sel:
  "x (bounce cv this) =
     (if borderX cv this then min (max (size_p this) (x this)) (width cv - size_p this) else x this)"
  "y (bounce cv this) =
     (if borderY cv this then min (max (size_p this) (y this)) (height cv - size_p this) else y this)"
  "dirX (bounce cv this) =
     dirX this * (if borderX cv this then - 0.5 else 1) * (if borderY cv this then 0.5 else 1)"
  "dirY (bounce cv this) =
     dirY this * (if borderX cv this then 0.5 else 1) * (if borderY cv this then - 0.5 else 1)"
  by (simp_all add: bounce_def bounceX_def bounceY_def borderX_def borderY_def)

lemma border_collisions [simp]:
  "borderX cv (collisions this m ps self mode) = borderX cv this"
  "borderY cv (collisions this m ps self mode) = borderY cv this"
  by (simp_all add: borderX_def borderY_def)

subsection \<open>Facts about the rounding\<close>

lemma roundHalfEven_of_int [simp]: "roundHalfEven (of_int n) = n"
  by (simp add: roundHalfEven_def)

lemma roundHalfEven_bounds: "\<lfloor>r\<rfloor> \<le> roundHalfEven r" "roundHalfEven r \<le> \<lfloor>r\<rfloor> + 1"
  by (simp_all add: roundHalfEven_def Let_def)

lemma roundHalfEven_mono:
  assumes "r \<le> s"
  shows "roundHalfEven r \<le> roundHalfEven s"
proof (cases "\<lfloor>r\<rfloor> = \<lfloor>s\<rfloor>")
  case True
  with assms show ?thesis
    by (auto simp add: roundHalfEven_def Let_def)
next
  case False
  with assms have "\<lfloor>r\<rfloor> < \<lfloor>s\<rfloor>"
    using floor_mono [of r s] by simp
  then have "\<lfloor>r\<rfloor> + 1 \<le> \<lfloor>s\<rfloor>" by simp
  with roundHalfEven_bounds(2) [of r] roundHalfEven_bounds(1) [of s] show ?thesis
    by linarith
qed

lemma expo_small: "n < 2 ^ 53 \<Longrightarrow> expo n = 0"
  by (simp add: expo.simps)

lemma expo_upper: "n < 2 ^ 53 * 2 ^ expo n"
proof (induction n rule: expo.induct)
  case (1 n)
  show ?case
  proof (cases "n < 2 ^ 53")
    case True
    then show ?thesis by (simp add: expo_small)
  next
    case False
    then have e: "expo n = Suc (expo (n div 2))"
      by (subst expo.simps) simp
    from "1.IH" [OF False] have "n div 2 < 2 ^ 53 * 2 ^ expo (n div 2)" .
    then have "n < 2 * (2 ^ 53 * 2 ^ expo (n div 2))" by linarith
    then show ?thesis by (simp add: e)
  qed
qed

lemma expo_lower: "0 < expo n \<Longrightarrow> 2 ^ 52 * 2 ^ expo n \<le> n"
proof (induction n rule: expo.induct)
  case (1 n)
  show ?case
  proof (cases "n < 2 ^ 53")
    case True
    with "1.prems" show ?thesis by (simp add: expo_small)
  next
    case False
    then have e: "expo n = Suc (expo (n div 2))"
      by (subst expo.simps) simp
    show ?thesis
    proof (cases "0 < expo (n div 2)")
      case True
      from "1.IH" [OF False True] have "2 ^ 52 * 2 ^ expo (n div 2) \<le> n div 2" .
      then have "2 * (2 ^ 52 * 2 ^ expo (n div 2)) \<le> n" by linarith
      then show ?thesis by (simp add: e)
    next
      case z: False
      with False show ?thesis by (simp add: e)
    qed
  qed
qed

lemma expo_eq:
  assumes "2 ^ 52 * 2 ^ e \<le> n" and "n < 2 ^ 53 * 2 ^ e"
  shows "expo n = e"
proof (rule ccontr)
  assume ne: "expo n \<noteq> e"
  show False
  proof (cases "expo n < e")
    case True
    then have "(2::nat) ^ Suc (expo n) \<le> 2 ^ e"
      by (intro power_increasing) simp_all
    then have "(2::nat) ^ 53 * 2 ^ expo n \<le> 2 ^ 52 * 2 ^ e" by simp
    with expo_upper [of n] assms(1) show False by linarith
  next
    case False
    with ne have lt: "e < expo n" by simp
    then have "(2::nat) ^ Suc e \<le> 2 ^ expo n"
      by (intro power_increasing) simp_all
    then have "(2::nat) ^ 53 * 2 ^ e \<le> 2 ^ 52 * 2 ^ expo n" by simp
    moreover from lt have "2 ^ 52 * 2 ^ expo n \<le> n" by (intro expo_lower) simp
    ultimately show False using assms(2) by linarith
  qed
qed

lemma expo_mono:
  assumes "n \<le> m"
  shows "expo n \<le> expo m"
proof (rule ccontr)
  assume "\<not> expo n \<le> expo m"
  then have lt: "expo m < expo n" by simp
  then have "(2::nat) ^ Suc (expo m) \<le> 2 ^ expo n"
    by (intro power_increasing) simp_all
  then have "(2::nat) ^ 53 * 2 ^ expo m \<le> 2 ^ 52 * 2 ^ expo n" by simp
  moreover from lt have "2 ^ 52 * 2 ^ expo n \<le> n" by (intro expo_lower) simp
  ultimately show False using expo_upper [of m] assms by linarith
qed

lemma round53_fix:
  assumes "m < 2 ^ 53"
  shows "round53 (of_nat m * 2 ^ j) = of_nat m * 2 ^ j"
proof -
  let ?s = "of_nat m * 2 ^ j :: real"
  let ?e = "expo (m * 2 ^ j)"
  have fl: "nat \<lfloor>?s\<rfloor> = m * 2 ^ j"
  proof -
    have "?s = of_int (int (m * 2 ^ j))" by simp
    then have "\<lfloor>?s\<rfloor> = int (m * 2 ^ j)" by (simp only: floor_of_int)
    then show ?thesis by (simp only: nat_int)
  qed
  have le: "?e \<le> j"
  proof (cases "0 < ?e")
    case False
    then show ?thesis by simp
  next
    case True
    then have "2 ^ 52 * 2 ^ ?e \<le> m * 2 ^ j" by (rule expo_lower)
    also have "\<dots> < 2 ^ 53 * 2 ^ j" using assms by simp
    finally have "(2::nat) ^ ?e < 2 ^ Suc j" by simp
    then have "?e < Suc j" by (simp only: power_strict_increasing_iff) 
    then show ?thesis by simp
  qed
  from le obtain k where k: "j = ?e + k"
    using le_Suc_ex by blast
  have p: "(2::real) ^ j = 2 ^ ?e * 2 ^ k"
    by (subst k) (simp only: power_add)
  have "?s / 2 ^ ?e = of_int (int (m * 2 ^ k))"
    by (simp add: p)
  then have "roundHalfEven (?s / 2 ^ ?e) = int (m * 2 ^ k)"
    by (simp only: roundHalfEven_of_int)
  then have "round53 ?s = of_int (int (m * 2 ^ k)) * 2 ^ ?e"
    by (simp add: round53_def fl Let_def)
  also have "\<dots> = ?s"
    by (simp add: p)
  finally show ?thesis .
qed

lemma round53_0 [simp]: "round53 0 = 0"
  using round53_fix [of 0 0] by simp

lemma round53_form:
  assumes "0 \<le> s"
  shows "\<exists>M. round53 s = of_nat M * 2 ^ expo (nat \<lfloor>s\<rfloor>) \<and> M \<le> 2 ^ 53 \<and>
             (0 < expo (nat \<lfloor>s\<rfloor>) \<longrightarrow> 2 ^ 52 \<le> M)"
proof -
  let ?n = "nat \<lfloor>s\<rfloor>"
  let ?e = "expo ?n"
  let ?q = "s / 2 ^ ?e"
  have n: "real ?n \<le> s" "s < real ?n + 1"
    using assms by linarith+
  have "Suc ?n \<le> 2 ^ 53 * 2 ^ ?e"
    using expo_upper [of ?n] by simp
  then have "real (Suc ?n) \<le> real (2 ^ 53 * 2 ^ ?e)"
    by (simp only: of_nat_le_iff)
  then have "real ?n + 1 \<le> 2 ^ 53 * 2 ^ ?e"
    by simp
  with n have "s < 2 ^ 53 * 2 ^ ?e" by linarith
  then have "?q < 2 ^ 53" by (simp add: field_simps)
  then have "?q \<le> of_int (2 ^ 53)" by simp
  from roundHalfEven_mono [OF this] have up: "roundHalfEven ?q \<le> 2 ^ 53"
    by (simp only: roundHalfEven_of_int)
  have "0 \<le> ?q" using assms by simp
  then have "of_int 0 \<le> ?q" by simp
  from roundHalfEven_mono [OF this] have lo: "0 \<le> roundHalfEven ?q"
    by (simp only: roundHalfEven_of_int)
  have big: "2 ^ 52 \<le> roundHalfEven ?q" if "0 < ?e"
  proof -
    from that have "2 ^ 52 * 2 ^ ?e \<le> ?n" by (rule expo_lower)
    then have "real (2 ^ 52 * 2 ^ ?e) \<le> real ?n" by (simp only: of_nat_le_iff)
    with n have "2 ^ 52 * 2 ^ ?e \<le> s" by simp
    then have "of_int (2 ^ 52) \<le> ?q" by (simp add: field_simps)
    from roundHalfEven_mono [OF this] show ?thesis
      by (simp only: roundHalfEven_of_int)
  qed
  define M where "M = nat (roundHalfEven ?q)"
  have a: "round53 s = of_nat M * 2 ^ ?e"
    using lo by (simp add: round53_def Let_def M_def)
  have b: "M \<le> 2 ^ 53" using up lo by (simp add: M_def)
  have c: "0 < ?e \<longrightarrow> 2 ^ 52 \<le> M" using big lo by (auto simp add: M_def)
  show ?thesis by (rule exI [of _ M]) (intro conjI a b c)
qed

lemma round53_nonneg: "0 \<le> s \<Longrightarrow> 0 \<le> round53 s"
  using round53_form [of s] by auto

lemma round53_mono:
  assumes "0 \<le> s" and "s \<le> t"
  shows "round53 s \<le> round53 t"
proof -
  let ?e = "expo (nat \<lfloor>s\<rfloor>)"
  let ?f = "expo (nat \<lfloor>t\<rfloor>)"
  have "nat \<lfloor>s\<rfloor> \<le> nat \<lfloor>t\<rfloor>"
    using assms by (simp add: floor_mono nat_mono)
  then have ef: "?e \<le> ?f" by (rule expo_mono)
  show ?thesis
  proof (cases "?e = ?f")
    case True
    have "s / 2 ^ ?f \<le> t / 2 ^ ?f"
      using assms by (simp add: divide_right_mono)
    from roundHalfEven_mono [OF this] show ?thesis
      by (simp add: round53_def Let_def True)
  next
    case False
    with ef have lt: "?e < ?f" by simp
    from assms have t0: "0 \<le> t" by simp
    obtain M where M: "round53 s = of_nat M * 2 ^ ?e" "M \<le> 2 ^ 53"
      using round53_form [OF assms(1)] by blast
    obtain K where K: "round53 t = of_nat K * 2 ^ ?f" "2 ^ 52 \<le> K"
      using round53_form [OF t0] lt by auto
    have "real M \<le> real (2 ^ 53)"
      using M(2) by (simp only: of_nat_le_iff)
    then have "round53 s \<le> 2 ^ 53 * 2 ^ ?e"
      by (simp add: M(1))
    also have "\<dots> = 2 ^ 52 * 2 ^ Suc ?e" by simp
    also have "\<dots> \<le> 2 ^ 52 * (2::real) ^ ?f"
      using lt by (intro mult_left_mono power_increasing) simp_all
    also have "\<dots> \<le> round53 t"
    proof -
      have "real (2 ^ 52) \<le> real K"
        using K(2) by (simp only: of_nat_le_iff)
      then show ?thesis by (simp add: K(1))
    qed
    finally show ?thesis .
  qed
qed

lemma round53_pow2: "round53 (2 ^ j) = 2 ^ j"
  using round53_fix [of 1 j] by simp

lemma round53_idem:
  assumes "0 \<le> s"
  shows "round53 (round53 s) = round53 s"
proof -
  obtain M where M: "round53 s = of_nat M * 2 ^ expo (nat \<lfloor>s\<rfloor>)" "M \<le> 2 ^ 53"
    using round53_form [OF assms] by blast
  show ?thesis
  proof (cases "M < 2 ^ 53")
    case True
    then show ?thesis by (simp only: M(1) round53_fix)
  next
    case False
    with M(2) have "M = 2 ^ 53" by simp
    then have "round53 s = 2 ^ (53 + expo (nat \<lfloor>s\<rfloor>))"
      by (simp add: M(1) power_add)
    then show ?thesis by (simp only: round53_pow2)
  qed
qed

lemma round64_nonneg_eq: "0 \<le> r \<Longrightarrow> round64 r = round53 (r * 2 ^ 1074) / 2 ^ 1074"
  by (cases "r = 0") (simp_all add: round64_def)

lemma round64_neg: "round64 (- r) = - round64 r"
  by (simp add: round64_def sgn_minus)

lemma round64_0 [simp]: "round64 0 = 0"
  by (simp add: round64_def)

lemma round64_eval:
  assumes "0 \<le> r" and "2 ^ 52 * 2 ^ e \<le> r * 2 ^ 1074" and "r * 2 ^ 1074 < 2 ^ 53 * 2 ^ e"
  shows "round64 r = of_int (roundHalfEven (r * 2 ^ 1074 / 2 ^ e)) * 2 ^ e / 2 ^ 1074"
proof -
  let ?s = "r * 2 ^ 1074"
  have "0 \<le> ?s" using assms(1) by simp
  then have s0: "int (nat \<lfloor>?s\<rfloor>) = \<lfloor>?s\<rfloor>" by simp
  have "of_int (int (2 ^ 52 * 2 ^ e)) \<le> ?s" using assms(2) by simp
  then have "int (2 ^ 52 * 2 ^ e) \<le> int (nat \<lfloor>?s\<rfloor>)"
    by (simp only: le_floor_iff s0)
  then have lo: "2 ^ 52 * 2 ^ e \<le> nat \<lfloor>?s\<rfloor>"
    by (simp only: of_nat_le_iff)
  have "?s < of_int (int (2 ^ 53 * 2 ^ e))" using assms(3) by simp
  then have "int (nat \<lfloor>?s\<rfloor>) < int (2 ^ 53 * 2 ^ e)"
    by (simp only: floor_less_iff s0)
  then have hi: "nat \<lfloor>?s\<rfloor> < 2 ^ 53 * 2 ^ e"
    by (simp only: of_nat_less_iff)
  from lo hi have "expo (nat \<lfloor>?s\<rfloor>) = e" by (rule expo_eq)
  then show ?thesis
    using assms(1) by (simp add: round64_nonneg_eq round53_def Let_def)
qed

lemma round64_eval_small:
  assumes "0 \<le> r" and "r * 2 ^ 1074 < 2 ^ 53"
  shows "round64 r = of_int (roundHalfEven (r * 2 ^ 1074)) / 2 ^ 1074"
proof -
  let ?s = "r * 2 ^ 1074"
  have "0 \<le> ?s" using assms(1) by simp
  then have s0: "int (nat \<lfloor>?s\<rfloor>) = \<lfloor>?s\<rfloor>" by simp
  have "?s < of_int (int (2 ^ 53))" using assms(2) by simp
  then have "int (nat \<lfloor>?s\<rfloor>) < int (2 ^ 53)"
    by (simp only: floor_less_iff s0)
  then have "nat \<lfloor>?s\<rfloor> < 2 ^ 53"
    by (simp only: of_nat_less_iff)
  then have "expo (nat \<lfloor>?s\<rfloor>) = 0" by (rule expo_small)
  then show ?thesis
    using assms(1) by (simp add: round64_nonneg_eq round53_def Let_def)
qed

lemma LEAK64_value: "LEAK64 = 1152921504606847 / 2 ^ 59"
  unfolding LEAK64_def PARTICLE_VELOCITY_LEAK_MODIFIER_def
  by (subst round64_eval [where e = 1013]) (simp_all add: roundHalfEven_def Let_def)

lemma round53_small:
  assumes "0 \<le> s" and "s < 2 ^ 53"
  shows "round53 s = of_int (roundHalfEven s)"
proof -
  have s0: "int (nat \<lfloor>s\<rfloor>) = \<lfloor>s\<rfloor>" using assms(1) by simp
  have "s < of_int (int (2 ^ 53))" using assms(2) by simp
  then have "int (nat \<lfloor>s\<rfloor>) < int (2 ^ 53)"
    by (simp only: floor_less_iff s0)
  then have "nat \<lfloor>s\<rfloor> < 2 ^ 53"
    by (simp only: of_nat_less_iff)
  then have "expo (nat \<lfloor>s\<rfloor>) = 0" by (rule expo_small)
  then show ?thesis by (simp add: round53_def Let_def)
qed

lemma LEAK64_facts:
  "0 < LEAK64" "LEAK64 \<le> 1 / 2" "1 \<le> 2 ^ 52 * LEAK64"
  "round53 (250 * LEAK64) = 1" "round53 (249 * LEAK64) = 0"
proof -
  show "0 < LEAK64" "LEAK64 \<le> 1 / 2" "1 \<le> 2 ^ 52 * LEAK64"
    by (simp_all add: LEAK64_value)
  show "round53 (250 * LEAK64) = 1"
    by (subst round53_small) (simp_all add: LEAK64_value roundHalfEven_def Let_def)
  show "round53 (249 * LEAK64) = 0"
    by (subst round53_small) (simp_all add: LEAK64_value roundHalfEven_def Let_def)
qed

lemma leak_units:
  assumes V0: "0 \<le> V" and fx: "round53 V = V"
  shows "0 \<le> round53 (V - round53 (V * LEAK64))"
    and "round53 (V - round53 (V * LEAK64)) \<le> V"
    and "250 \<le> V \<Longrightarrow> round53 (V - round53 (V * LEAK64)) < V"
    and "V \<le> 249 \<Longrightarrow> round53 (V - round53 (V * LEAK64)) = V"
    and "0 < V \<Longrightarrow> 0 < round53 (V - round53 (V * LEAK64))"
    and "round53 (round53 (V - round53 (V * LEAK64))) = round53 (V - round53 (V * LEAK64))"
proof -
  let ?w = "round53 (V * LEAK64)"
  let ?L = "round53 (V - ?w)"
  note c = LEAK64_facts
  have Vc0: "0 \<le> V * LEAK64" using V0 c(1) by simp
  have VcV: "V * LEAK64 \<le> V"
    using V0 c(2) by (intro mult_left_le) simp_all
  have w0: "0 \<le> ?w" using Vc0 by (rule round53_nonneg)
  have wV: "?w \<le> V" using round53_mono [OF Vc0 VcV] by (simp only: fx)
  have d0: "0 \<le> V - ?w" using wV by simp
  have dV: "V - ?w \<le> V" using w0 by simp
  show L0: "0 \<le> ?L" using d0 by (rule round53_nonneg)
  show LV: "?L \<le> V" using round53_mono [OF d0 dV] by (simp only: fx)
  show "round53 ?L = ?L" using d0 by (rule round53_idem)
  have stall: "?L = V" if "V \<le> 249"
  proof -
    from that c(1) have "V * LEAK64 \<le> 249 * LEAK64" by simp
    from round53_mono [OF Vc0 this] have "?w \<le> 0" by (simp only: c(5))
    with w0 have "?w = 0" by simp
    then show ?thesis by (simp add: fx)
  qed
  then show "V \<le> 249 \<Longrightarrow> ?L = V" .
  let ?E = "expo (nat \<lfloor>V\<rfloor>)"
  let ?g = "(2::real) ^ ?E"
  from round53_form [OF V0] obtain M
    where MM: "round53 V = of_nat M * ?g \<and> M \<le> 2 ^ 53 \<and> (0 < ?E \<longrightarrow> 2 ^ 52 \<le> M)" ..
  from MM [THEN conjunct1] fx have M1: "V = of_nat M * ?g" by simp
  note M = M1 MM [THEN conjunct2, THEN conjunct1] MM [THEN conjunct2, THEN conjunct2]
  have big: "?g \<le> ?L \<and> ?L \<le> V - ?g" if V250: "250 \<le> V"
  proof -
    have M2: "2 \<le> M"
    proof (cases "0 < ?E")
      case True
      with M(3) have "2 ^ 52 \<le> M" by simp
      then show ?thesis by simp
    next
      case False
      then have "V = of_nat M" using M(1) by simp
      with V250 have "real 250 \<le> real M" by simp
      then have "250 \<le> M" by (simp only: of_nat_le_iff)
      then show ?thesis by simp
    qed
    obtain K where K: "M = Suc K" using M2 by (cases M) simp_all
    have K53: "K < 2 ^ 53" using M(2) K by simp
    have Vg: "V - ?g = of_nat K * ?g"
      by (subst M(1)) (simp add: K algebra_simps)
    have fK: "round53 (V - ?g) = V - ?g"
      unfolding Vg using K53 by (rule round53_fix)
    have g0: "0 \<le> ?g" by simp
    have gw: "?g \<le> ?w"
    proof (cases "0 < ?E")
      case True
      with M(3) have "2 ^ 52 \<le> M" by simp
      then have "real (2 ^ 52) \<le> real M" by (simp only: of_nat_le_iff)
      then have "2 ^ 52 * LEAK64 \<le> real M * LEAK64"
        using c(1) by simp
      with c(3) have "1 \<le> real M * LEAK64" by linarith
      then have "1 * ?g \<le> (real M * LEAK64) * ?g"
        by (intro mult_right_mono) simp_all
      then have "?g \<le> V * LEAK64" by (subst M(1)) (simp add: mult_ac)
      from round53_mono [OF g0 this] show ?thesis by (simp only: round53_pow2)
    next
      case False
      then have E: "?g = 1" by simp
      from V250 c(1) have le: "250 * LEAK64 \<le> V * LEAK64" by simp
      have "0 \<le> 250 * LEAK64" using c(1) by simp
      from round53_mono [OF this le] show ?thesis by (simp only: c(4) E)
    qed
    have "real M * LEAK64 \<le> real M * (1 / 2)"
      using c(2) by (intro mult_left_mono) simp_all
    also have "\<dots> \<le> real K"
      using M2 by (simp add: K)
    finally have "(real M * LEAK64) * ?g \<le> real K * ?g"
      by (intro mult_right_mono) simp_all
    then have "V * LEAK64 \<le> V - ?g"
      unfolding Vg by (subst M(1)) (simp add: mult_ac)
    from round53_mono [OF Vc0 this] have wg: "?w \<le> V - ?g" by (simp only: fK)
    from gw have "V - ?w \<le> V - ?g" by simp
    from round53_mono [OF d0 this] have up: "?L \<le> V - ?g" by (simp only: fK)
    from wg have "?g \<le> V - ?w" by simp
    from round53_mono [OF g0 this] have lo: "?g \<le> ?L" by (simp only: round53_pow2)
    from lo up show ?thesis by blast
  qed
  have g1: "0 < ?g" by simp
  show "?L < V" if "250 \<le> V"
    using big [OF that] g1 by linarith
  show "0 < ?L" if V1: "0 < V"
  proof (cases "250 \<le> V")
    case True
    from big [OF True] g1 show ?thesis by linarith
  next
    case False
    have "V = real (M * 2 ^ ?E)" by (subst M(1)) simp
    with False have "real (M * 2 ^ ?E) < real 250" by simp
    then have "M * 2 ^ ?E < 250" by (simp only: of_nat_less_iff)
    then have "M * 2 ^ ?E \<le> 249" by simp
    then have "real (M * 2 ^ ?E) \<le> real 249" by (simp only: of_nat_le_iff)
    with \<open>V = real (M * 2 ^ ?E)\<close> have "V \<le> 249" by simp
    from stall [OF this] V1 show ?thesis by simp
  qed
qed

lemma leak64_nonneg:
  assumes v0: "0 \<le> v" and fx: "round64 v = v"
  shows "0 \<le> leak64 v"
    and "leak64 v \<le> v"
    and "250 / 2 ^ 1074 \<le> v \<Longrightarrow> leak64 v < v"
    and "v \<le> 249 / 2 ^ 1074 \<Longrightarrow> leak64 v = v"
    and "0 < v \<Longrightarrow> 0 < leak64 v"
    and "round64 (leak64 v) = leak64 v"
proof -
  define U :: real where "U = 2 ^ 1074"
  have U0: "0 < U" by (simp add: U_def)
  have r64: "round64 r = round53 (r * U) / U" if "0 \<le> r" for r
    using that by (simp only: round64_nonneg_eq U_def)
  let ?V = "v * U"
  let ?w = "round53 (?V * LEAK64)"
  let ?L = "round53 (?V - ?w)"
  have V0: "0 \<le> ?V" using v0 U0 by simp
  have "round53 ?V / U = v" using r64 [OF v0] fx by simp
  then have fV: "round53 ?V = ?V" using U0 by (simp add: field_simps)
  note u = leak_units [OF V0 fV]
  have vc0: "0 \<le> v * LEAK64" using v0 LEAK64_facts(1) by simp
  have w: "round64 (v * LEAK64) = ?w / U"
    by (simp only: r64 [OF vc0]) (simp add: mult_ac)
  have Vc0: "0 \<le> ?V * LEAK64" using V0 LEAK64_facts(1) by simp
  have VcV: "?V * LEAK64 \<le> ?V"
    using V0 LEAK64_facts(2) by (intro mult_left_le) simp_all
  from round53_mono [OF Vc0 VcV] have "?w \<le> ?V" by (simp only: fV)
  then have d0: "0 \<le> v - ?w / U" using U0 by (simp add: field_simps)
  have L: "leak64 v = ?L / U"
    unfolding leak64_def sub64_def mul64_def w
    by (simp only: r64 [OF d0]) (simp add: U0 [THEN less_imp_neq, symmetric] algebra_simps)
  show "0 \<le> leak64 v" using u(1) U0 by (simp add: L)
  show "leak64 v \<le> v" using u(2) U0 by (simp add: L field_simps)
  show "leak64 v < v" if "250 / 2 ^ 1074 \<le> v"
  proof -
    from that have "250 \<le> ?V" using U0 by (simp add: U_def field_simps)
    from u(3) [OF this] show ?thesis using U0 by (simp add: L field_simps)
  qed
  show "leak64 v = v" if "v \<le> 249 / 2 ^ 1074"
  proof -
    from that have "?V \<le> 249" using U0 by (simp add: U_def field_simps)
    from u(4) [OF this] show ?thesis using U0 by (simp add: L)
  qed
  show "0 < leak64 v" if "0 < v"
  proof -
    from that have "0 < ?V" using U0 by simp
    from u(5) [OF this] show ?thesis using U0 by (simp add: L)
  qed
  have "round64 (leak64 v) = round53 (leak64 v * U) / U"
    using \<open>0 \<le> leak64 v\<close> by (rule r64)
  also have "leak64 v * U = ?L" using U0 by (simp add: L)
  also have "round53 ?L = ?L" by (rule u(6))
  finally show "round64 (leak64 v) = leak64 v" by (simp only: L)
qed

lemma leak64_neg: "leak64 (- v) = - leak64 v"
proof -
  have "- v - - round64 (v * LEAK64) = - (v - round64 (v * LEAK64))" by simp
  then show ?thesis
    by (simp only: leak64_def sub64_def mul64_def mult_minus_left round64_neg)
qed

lemma isDouble_neg: "isDouble (- v) = isDouble v"
  by (auto simp add: isDouble_def round64_neg)

lemma leak64_double_nonneg:
  assumes "isDouble v" and "0 \<le> v"
  shows "\<bar>leak64 v\<bar> \<le> \<bar>v\<bar> \<and> sgn (leak64 v) = sgn v \<and>
         (250 / 2 ^ 1074 \<le> \<bar>v\<bar> \<longrightarrow> \<bar>leak64 v\<bar> < \<bar>v\<bar>) \<and>
         (\<bar>v\<bar> \<le> 249 / 2 ^ 1074 \<longrightarrow> leak64 v = v) \<and>
         isDouble (leak64 v)"
proof -
  from assms(1) have fx: "round64 v = v" and mx: "\<bar>v\<bar> \<le> (2 ^ 53 - 1) * 2 ^ 971"
    by (simp_all only: isDouble_def)
  note l = leak64_nonneg [OF assms(2) fx]
  have a: "\<bar>leak64 v\<bar> \<le> \<bar>v\<bar>" using l(1,2) assms(2) by simp
  have s: "sgn (leak64 v) = sgn v"
  proof (cases "v = 0")
    case True
    with l(1,2) show ?thesis by simp
  next
    case False
    with assms(2) have "0 < v" by simp
    with l(5) show ?thesis by simp
  qed
  have d: "250 / 2 ^ 1074 \<le> \<bar>v\<bar> \<longrightarrow> \<bar>leak64 v\<bar> < \<bar>v\<bar>"
  proof
    assume "250 / 2 ^ 1074 \<le> \<bar>v\<bar>"
    with assms(2) have "250 / 2 ^ 1074 \<le> v" by simp
    from l(3) [OF this] l(1) assms(2) show "\<bar>leak64 v\<bar> < \<bar>v\<bar>" by simp
  qed
  have e: "\<bar>v\<bar> \<le> 249 / 2 ^ 1074 \<longrightarrow> leak64 v = v"
  proof
    assume "\<bar>v\<bar> \<le> 249 / 2 ^ 1074"
    with assms(2) have "v \<le> 249 / 2 ^ 1074" by simp
    from l(4) [OF this] show "leak64 v = v" .
  qed
  have i: "isDouble (leak64 v)"
    using l(6) a mx by (simp only: isDouble_def) linarith
  from a s d e i show ?thesis by blast
qed

lemma leak64_double:
  assumes "isDouble v"
  shows "\<bar>leak64 v\<bar> \<le> \<bar>v\<bar> \<and> sgn (leak64 v) = sgn v \<and>
         (250 / 2 ^ 1074 \<le> \<bar>v\<bar> \<longrightarrow> \<bar>leak64 v\<bar> < \<bar>v\<bar>) \<and>
         (\<bar>v\<bar> \<le> 249 / 2 ^ 1074 \<longrightarrow> leak64 v = v) \<and>
         isDouble (leak64 v)"
proof (cases "0 \<le> v")
  case True
  with assms show ?thesis by (rule leak64_double_nonneg)
next
  case False
  then have n: "0 \<le> - v" by simp
  from assms have "isDouble (- v)" by (simp only: isDouble_neg)
  from leak64_double_nonneg [OF this n, unfolded leak64_neg abs_minus_cancel sgn_minus
      neg_equal_iff_equal isDouble_neg]
  show ?thesis .
qed

lemma isDouble_units:
  assumes "isDouble v"
  shows "\<exists>k::nat. \<bar>v\<bar> = of_nat k / 2 ^ 1074"
proof -
  have d: "isDouble \<bar>v\<bar>"
    using assms isDouble_neg [of v] by (cases "0 \<le> v") simp_all
  have a0: "0 \<le> \<bar>v\<bar>" by simp
  from d have "round64 \<bar>v\<bar> = \<bar>v\<bar>" by (simp only: isDouble_def)
  then have e: "\<bar>v\<bar> = round53 (\<bar>v\<bar> * 2 ^ 1074) / 2 ^ 1074"
    by (simp only: round64_nonneg_eq [OF a0])
  have "0 \<le> \<bar>v\<bar> * 2 ^ 1074" by simp
  from round53_form [OF this] obtain M
    where "round53 (\<bar>v\<bar> * 2 ^ 1074) =
             of_nat M * 2 ^ expo (nat \<lfloor>\<bar>v\<bar> * 2 ^ 1074\<rfloor>) \<and> M \<le> 2 ^ 53 \<and>
           (0 < expo (nat \<lfloor>\<bar>v\<bar> * 2 ^ 1074\<rfloor>) \<longrightarrow> 2 ^ 52 \<le> M)" ..
  then have X: "round53 (\<bar>v\<bar> * 2 ^ 1074) = of_nat (M * 2 ^ expo (nat \<lfloor>\<bar>v\<bar> * 2 ^ 1074\<rfloor>))"
    by simp
  have "\<bar>v\<bar> = of_nat (M * 2 ^ expo (nat \<lfloor>\<bar>v\<bar> * 2 ^ 1074\<rfloor>)) / 2 ^ 1074"
    by (rule trans [OF e]) (simp only: X)
  then show ?thesis ..
qed

lemma leak64_funpow_fixed: "leak64 v = v \<Longrightarrow> (leak64 ^^ n) v = v"
  by (induction n) simp_all

lemma leak64_stalls_units:
  "isDouble v \<Longrightarrow> \<bar>v\<bar> = of_nat k / 2 ^ 1074 \<Longrightarrow>
   \<exists>n0. \<forall>n \<ge> n0. (leak64 ^^ n) v = (leak64 ^^ n0) v \<and> \<bar>(leak64 ^^ n0) v\<bar> \<le> 249 / 2 ^ 1074"
proof (induction k arbitrary: v rule: less_induct)
  case (less k)
  note l = leak64_double [OF less.prems(1)]
  show ?case
  proof (cases "k \<le> 249")
    case True
    then have "real k \<le> real 249" by (simp only: of_nat_le_iff)
    then have small: "\<bar>v\<bar> \<le> 249 / 2 ^ 1074"
      by (simp add: less.prems(2) divide_right_mono)
    with l have "leak64 v = v" by blast
    then have "(leak64 ^^ n) v = v" for n by (rule leak64_funpow_fixed)
    with small have "\<forall>n \<ge> 0. (leak64 ^^ n) v = (leak64 ^^ 0) v \<and> \<bar>(leak64 ^^ 0) v\<bar> \<le> 249 / 2 ^ 1074"
      by simp
    then show ?thesis ..
  next
    case False
    then have "250 \<le> k" by simp
    then have "real 250 \<le> real k" by (simp only: of_nat_le_iff)
    then have "250 / 2 ^ 1074 \<le> \<bar>v\<bar>"
      by (simp add: less.prems(2) divide_right_mono)
    with l have lt: "\<bar>leak64 v\<bar> < \<bar>v\<bar>" and d: "isDouble (leak64 v)" by blast+
    from isDouble_units [OF d] obtain k' where k': "\<bar>leak64 v\<bar> = of_nat k' / 2 ^ 1074" ..
    from lt have "real k' / 2 ^ 1074 < real k / 2 ^ 1074"
      by (simp only: k' less.prems(2))
    then have "real k' < real k" by (simp add: divide_less_cancel)
    then have "k' < k" by (simp only: of_nat_less_iff)
    from less.IH [OF this d k'] obtain n0
      where n0: "\<forall>n \<ge> n0. (leak64 ^^ n) (leak64 v) = (leak64 ^^ n0) (leak64 v) \<and>
                   \<bar>(leak64 ^^ n0) (leak64 v)\<bar> \<le> 249 / 2 ^ 1074" ..
    have "\<forall>n \<ge> Suc n0. (leak64 ^^ n) v = (leak64 ^^ Suc n0) v \<and>
             \<bar>(leak64 ^^ Suc n0) v\<bar> \<le> 249 / 2 ^ 1074"
    proof (intro allI impI)
      fix n assume "Suc n0 \<le> n"
      then obtain m where m: "n = Suc m" "n0 \<le> m" by (cases n) simp_all
      from n0 m(2) have A: "(leak64 ^^ m) (leak64 v) = (leak64 ^^ n0) (leak64 v)"
        and B: "\<bar>(leak64 ^^ n0) (leak64 v)\<bar> \<le> 249 / 2 ^ 1074"
        by blast+
      have C: "(leak64 ^^ Suc j) v = (leak64 ^^ j) (leak64 v)" for j
        by (simp only: funpow_Suc_right o_apply)
      show "(leak64 ^^ n) v = (leak64 ^^ Suc n0) v \<and>
             \<bar>(leak64 ^^ Suc n0) v\<bar> \<le> 249 / 2 ^ 1074"
        unfolding m(1) C using A B by (intro conjI)
    qed
    then show ?thesis ..
  qed
qed

lemma leak64_stalls:
  assumes "isDouble v"
  shows "\<exists>n0. \<forall>n \<ge> n0. (leak64 ^^ n) v = (leak64 ^^ n0) v \<and> \<bar>(leak64 ^^ n0) v\<bar> \<le> 249 / 2 ^ 1074"
proof -
  from isDouble_units [OF assms] obtain k where "\<bar>v\<bar> = of_nat k / 2 ^ 1074" ..
  with assms show ?thesis by (rule leak64_stalls_units)
qed

lemma round64_of_nat:
  assumes "m < 2 ^ 53"
  shows "round64 (of_nat m) = of_nat m"
proof -
  have "round64 (of_nat m) = round53 (of_nat m * 2 ^ 1074) / 2 ^ 1074"
    by (rule round64_nonneg_eq) simp
  also have "round53 (of_nat m * 2 ^ 1074) = of_nat m * 2 ^ 1074"
    using assms by (rule round53_fix)
  finally show ?thesis by simp
qed

lemma round64_numeral [simp]:
  "numeral w < (2::nat) ^ 53 \<Longrightarrow> round64 (numeral w) = numeral w"
  "numeral w < (2::nat) ^ 53 \<Longrightarrow> round64 (- numeral w) = - numeral w"
  using round64_of_nat [of "numeral w"] by (simp_all add: round64_neg)

lemma round64_units:
  assumes "m < 2 ^ 53"
  shows "round64 (of_nat m / 2 ^ 1074) = of_nat m / 2 ^ 1074"
proof -
  have "round64 (of_nat m / 2 ^ 1074) = round53 (of_nat m / 2 ^ 1074 * 2 ^ 1074) / 2 ^ 1074"
    by (rule round64_nonneg_eq) simp
  also have "of_nat m / 2 ^ 1074 * 2 ^ 1074 = (of_nat m * 2 ^ 0 :: real)" by simp
  also have "round53 (of_nat m * 2 ^ 0) = of_nat m * 2 ^ 0"
    using assms by (rule round53_fix)
  finally show ?thesis by simp
qed

lemma isDouble_units_small:
  assumes "m < 2 ^ 53"
  shows "isDouble (of_nat m / 2 ^ 1074)"
proof -
  have "real m \<le> real (2 ^ 53)" using assms by (simp only: of_nat_le_iff less_imp_le)
  then have "real m / 2 ^ 1074 \<le> 2 ^ 53 / 2 ^ 1074" by (simp add: divide_right_mono)
  also have "\<dots> \<le> (2 ^ 53 - 1) * 2 ^ 971" by simp
  finally show ?thesis
    using round64_units [OF assms] by (simp add: isDouble_def)
qed

lemma round64_absorb_250: "round64 (100 + 250 / 2 ^ 1074) = 100"
  by (subst round64_eval [where e = 1028]) (simp_all add: roundHalfEven_def Let_def)

lemma leak64_250: "leak64 (250 / 2 ^ 1074) = 249 / 2 ^ 1074"
proof -
  have m: "mul64 (250 / 2 ^ 1074) LEAK64 = 1 / 2 ^ 1074"
    unfolding mul64_def
    by (subst round64_eval_small) (simp_all add: LEAK64_value roundHalfEven_def Let_def)
  have "round64 (real 249 / 2 ^ 1074) = real 249 / 2 ^ 1074"
    by (rule round64_units) simp
  then have "round64 (249 / 2 ^ 1074) = 249 / 2 ^ 1074" by simp
  moreover have "250 / 2 ^ 1074 - 1 / 2 ^ 1074 = (249 / 2 ^ 1074 :: real)" by simp
  ultimately show ?thesis by (simp only: leak64_def sub64_def m)
qed

lemma round64_absorb_249: "round64 (100 + 249 / 2 ^ 1074) = 100"
  by (subst round64_eval [where e = 1028]) (simp_all add: roundHalfEven_def Let_def)

lemma leak64_249: "leak64 (249 / 2 ^ 1074) = 249 / 2 ^ 1074"
proof -
  have "isDouble (real 249 / 2 ^ 1074)" by (rule isDouble_units_small) simp
  then have "isDouble (249 / 2 ^ 1074)" by simp
  from leak64_double [OF this] show ?thesis by simp
qed

lemma leak64_0 [simp]: "leak64 0 = 0"
  by (simp add: leak64_def sub64_def mul64_def)

lemma sqrt_10000: "sqrt 10000 = 100"
  by (rule real_sqrt_unique) simp_all

subsection \<open>Facts about undisturbed frames\<close>

lemma collideWithRadius64_miss:
  "\<not> collides64 this cords r \<Longrightarrow> collideWithRadius64 this cords r = this"
  by (simp add: collideWithRadius64_def collides64_def Let_def)

lemma collideWithOthers64_done:
  "\<not> i < length ps \<Longrightarrow> collideWithOthers64 this ps self i = this"
  by (simp add: collideWithOthers64.simps [of this ps self i])

lemma collideWithOthers64_skip:
  "i < length ps \<Longrightarrow> i = self \<Longrightarrow>
   collideWithOthers64 this ps self i = collideWithOthers64 this ps self (i + 1)"
  by (simp add: collideWithOthers64.simps [of this ps self self] Let_def)

lemma collideWithOthers64_step:
  "i < length ps \<Longrightarrow> i \<noteq> self \<Longrightarrow>
   collideWithOthers64 this ps self i =
     collideWithOthers64 (collideWithRadius64 this (ps ! i) (size_p (ps ! i))) ps self (i + 1)"
  by (simp add: collideWithOthers64.simps [of this ps self i] Let_def)

lemma collideWithOthers64_miss:
  "(\<forall>j. i \<le> j \<and> j < length ps \<and> j \<noteq> self \<longrightarrow> \<not> collides64 this (ps ! j) (size_p (ps ! j))) \<Longrightarrow>
   collideWithOthers64 this ps self i = this"
proof (induction this ps self i rule: collideWithOthers64.induct)
  case (1 this ps self i)
  note miss = \<open>\<forall>j. i \<le> j \<and> j < length ps \<and> j \<noteq> self \<longrightarrow> \<not> collides64 this (ps ! j) (size_p (ps ! j))\<close>
  show ?case
  proof (cases "i < length ps")
    case False
    then show ?thesis by (simp add: collideWithOthers64_done)
  next
    case True
    from miss have later:
      "\<forall>j. i + 1 \<le> j \<and> j < length ps \<and> j \<noteq> self \<longrightarrow> \<not> collides64 this (ps ! j) (size_p (ps ! j))"
      by simp
    show ?thesis
    proof (cases "i = self")
      case True
      have "collideWithOthers64 this ps self (i + 1) = this"
        using "1.IH"(1) [OF \<open>i < length ps\<close> refl True later] .
      then show ?thesis
        by (simp add: collideWithOthers64_skip [OF \<open>i < length ps\<close> True])
    next
      case False
      with \<open>i < length ps\<close> miss have "\<not> collides64 this (ps ! i) (size_p (ps ! i))"
        by simp
      then have m: "collideWithRadius64 this (ps ! i) (size_p (ps ! i)) = this"
        by (rule collideWithRadius64_miss)
      have "collideWithOthers64 (collideWithRadius64 this (ps ! i) (size_p (ps ! i))) ps self (i + 1)
            = collideWithRadius64 this (ps ! i) (size_p (ps ! i))"
        using "1.IH"(2) [OF \<open>i < length ps\<close> refl False] later m by simp
      with m show ?thesis
        by (simp add: collideWithOthers64_step [OF \<open>i < length ps\<close> False])
    qed
  qed
qed

lemma collisions64_miss:
  assumes "mode = collision \<longrightarrow> \<not> collides64 this mousePos MOUSE_COLLISION_RADIUS"
    and "\<forall>j. j < length ps \<and> j \<noteq> self \<longrightarrow> \<not> collides64 this (ps ! j) (size_p (ps ! j))"
  shows "collisions64 this mousePos ps self mode = this"
proof -
  have "collideWithOthers64 this ps self 0 = this"
    using assms(2) by (intro collideWithOthers64_miss) simp
  moreover have "(if mode = collision
                  then collideWithRadius64 this mousePos MOUSE_COLLISION_RADIUS else this) = this"
    using assms(1) by (simp add: collideWithRadius64_miss)
  ultimately show ?thesis by (simp add: collisions64_def Let_def)
qed

lemma bounce64_quiet:
  "\<not> borderX64 cv this \<Longrightarrow> \<not> borderY64 cv this \<Longrightarrow> bounce64 cv this = this"
  by (simp add: bounce64_def bounceX64_def bounceY64_def)

lemma move64_undisturbed:
  assumes "undisturbed64 cv m mode ps i" and "ps ! i = this"
  shows "move64 this (Some cv) m ps i mode leak = velocityLeak64 leak (mainMovement64 this)"
proof -
  from assms have "collisions64 this m ps i mode = this"
    by (intro collisions64_miss) (simp_all add: undisturbed64_def)
  moreover from assms have "bounce64 cv this = this"
    by (intro bounce64_quiet) (simp_all add: undisturbed64_def)
  ultimately show ?thesis by (simp add: move64_def)
qed

lemma length_moveAt64 [simp]: "length (moveAt64 cv m mode leak k ps) = length ps"
  by (simp add: moveAt64_def)

lemma length_fold_moveAt64 [simp]: "length (fold (moveAt64 cv m mode leak) ks ps) = length ps"
  by (induction ks arbitrary: ps) simp_all

lemma moveAt64_other: "k \<noteq> i \<Longrightarrow> moveAt64 cv m mode leak k ps ! i = ps ! i"
  by (simp add: moveAt64_def)

lemma fold_moveAt64_other:
  "i \<notin> set ks \<Longrightarrow> fold (moveAt64 cv m mode leak) ks ps ! i = ps ! i"
  by (induction ks arbitrary: ps) (simp_all add: moveAt64_other)

lemma animate64_nth:
  assumes "i < length ps"
  shows "animate64 cv m mode leak ps ! i =
           move64 (ps ! i) (Some cv) m (fold (moveAt64 cv m mode leak) [0..<i] ps) i mode leak"
proof -
  let ?f = "moveAt64 cv m mode leak"
  let ?pre = "fold ?f [0..<i] ps"
  have split: "[0..<length ps] = [0..<i] @ i # [Suc i..<length ps]"
    using assms by (metis le0 upt_conv_Cons upt_add_eq_append le_add_diff_inverse less_imp_le_nat)
  have "animate64 cv m mode leak ps = fold ?f [Suc i..<length ps] (?f i ?pre)"
    by (simp add: animate64_def split)
  then have "animate64 cv m mode leak ps ! i = ?f i ?pre ! i"
    by (simp add: fold_moveAt64_other)
  also have "\<dots> = move64 (?pre ! i) (Some cv) m ?pre i mode leak"
    using assms by (simp add: moveAt64_def)
  also have "?pre ! i = ps ! i"
    by (simp add: fold_moveAt64_other)
  finally show ?thesis .
qed

lemma length_animate64 [simp]: "length (animate64 cv m mode leak ps) = length ps"
  by (simp add: animate64_def)

lemma length_frames64 [simp]: "length (frames64 host n ps) = length ps"
  by (induction n) (simp_all split: prod.split)

lemma calmFrame64_step:
  assumes "i < length ps" and "calmFrame64 host ps i n"
  shows "dirX (frames64 host (Suc n) ps ! i) = leak64 (dirX (frames64 host n ps ! i))"
    and "dirY (frames64 host (Suc n) ps ! i) = leak64 (dirY (frames64 host n ps ! i))"
proof -
  obtain cv m mode leak where h: "host n = (cv, m, mode, leak)"
    by (cases "host n") auto
  let ?cur = "frames64 host n ps"
  let ?pre = "fold (moveAt64 cv m mode leak) [0..<i] ?cur"
  have "leak \<and> undisturbed64 cv m mode ?pre i"
    using assms(2) unfolding calmFrame64_def h prod.case .
  then have leak: "leak" and u: "undisturbed64 cv m mode ?pre i"
    by blast+
  have pre: "?pre ! i = ?cur ! i"
    by (simp add: fold_moveAt64_other)
  have "frames64 host (Suc n) ps ! i = move64 (?cur ! i) (Some cv) m ?pre i mode leak"
    using assms(1) h by (simp add: animate64_nth)
  also have "\<dots> = velocityLeak64 leak (mainMovement64 (?cur ! i))"
    using u pre by (rule move64_undisturbed)
  finally have e: "frames64 host (Suc n) ps ! i = velocityLeak64 True (mainMovement64 (?cur ! i))"
    using leak by simp
  show "dirX (frames64 host (Suc n) ps ! i) = leak64 (dirX (frames64 host n ps ! i))"
    by (subst e) (simp add: velocityLeak64_def mainMovement64_def)
  show "dirY (frames64 host (Suc n) ps ! i) = leak64 (dirY (frames64 host n ps ! i))"
    by (subst e) (simp add: velocityLeak64_def mainMovement64_def)
qed

lemma calmFrame64_funpow:
  assumes "i < length ps" and "\<forall>n < N. calmFrame64 host ps i n"
  shows "dirX (frames64 host N ps ! i) = (leak64 ^^ N) (dirX (ps ! i)) \<and>
         dirY (frames64 host N ps ! i) = (leak64 ^^ N) (dirY (ps ! i))"
  using assms(2)
proof (induction N)
  case 0
  show ?case by simp
next
  case (Suc N)
  then have c: "calmFrame64 host ps i N" and p: "\<forall>n < N. calmFrame64 host ps i n" by simp_all
  from calmFrame64_step [OF assms(1) c] Suc.IH [OF p] show ?case
    by (simp only: funpow.simps o_apply) 
qed

lemma isDouble_funpow: "isDouble v \<Longrightarrow> isDouble ((leak64 ^^ n) v)"
  by (induction n) (simp_all add: leak64_double)

subsection \<open>The example run\<close>

text \<open>
  Every frame of the example run is calm: the particle stays at \<open>(100, 100)\<close>, since
  adding a velocity of a few units of \<open>1 / 2 ^ 1074\<close> to 100 rounds back to 100.
\<close>

lemma run_undisturbed:
  "undisturbed64 \<lparr>width = 200, height = 200\<rparr> \<lparr>x = 40, y = 20\<rparr> collision [run_particle k] 0"
  by (simp add: undisturbed64_def collides64_def borderX64_def borderY64_def
      add64_def sub64_def mul64_def sqrt64_def sqrt_10000 MOUSE_COLLISION_RADIUS_def)

lemma run_animate:
  "animate64 \<lparr>width = 200, height = 200\<rparr> \<lparr>x = 40, y = 20\<rparr> collision True [run_particle k] =
     [\<lparr>x = add64 100 (k / 2 ^ 1074), y = 100, size_p = 10, dirX = leak64 (k / 2 ^ 1074),
       dirY = 0, color = ''#ff0000''\<rparr>]"
proof -
  have "move64 (run_particle k) (Some \<lparr>width = 200, height = 200\<rparr>) \<lparr>x = 40, y = 20\<rparr>
          [run_particle k] 0 collision True =
        velocityLeak64 True (mainMovement64 (run_particle k))"
    using run_undisturbed by (rule move64_undisturbed) simp
  then show ?thesis
    by (simp add: animate64_def moveAt64_def velocityLeak64_def mainMovement64_def add64_def)
qed

lemma run_animate_250:
  "animate64 \<lparr>width = 200, height = 200\<rparr> \<lparr>x = 40, y = 20\<rparr> collision True [run_particle 250] =
     [run_particle 249]"
  by (simp only: run_animate add64_def round64_absorb_250 leak64_250)

lemma run_animate_249:
  "animate64 \<lparr>width = 200, height = 200\<rparr> \<lparr>x = 40, y = 20\<rparr> collision True [run_particle 249] =
     [run_particle 249]"
  by (simp only: run_animate add64_def round64_absorb_249 leak64_249)

lemma run_frames_249: "frames64 run_host n [run_particle 249] = [run_particle 249]"
  by (induction n) (simp_all only: frames64.simps prod.case run_animate_249)

lemma run_frames_250: "frames64 run_host (Suc n) [run_particle 250] = [run_particle 249]"
proof (induction n)
  case 0
  show ?case by (simp only: frames64.simps prod.case run_animate_250)
next
  case (Suc n)
  show ?case
    by (subst frames64.simps(2)) (simp only: Suc.IH prod.case run_animate_249)
qed

lemma run_calm: "calmFrame64 run_host [run_particle 250] 0 n"
proof (cases n)
  case 0
  show ?thesis
    unfolding 0 calmFrame64_def prod.case frames64.simps using run_undisturbed [of 250] by simp
next
  case (Suc m)
  show ?thesis
    unfolding Suc calmFrame64_def prod.case run_frames_250 using run_undisturbed [of 249] by simp
qed

lemma run_calm_249: "calmFrame64 run_host [run_particle 249] 0 n"
  unfolding calmFrame64_def prod.case run_frames_249 using run_undisturbed [of 249] by simp

subsection \<open>Containment (C1)\<close>

text \<open>
  Counterexample to C1 as stated. A particle of radius 10 at rest at \<open>x = 189.998\<close> in an
  arena of 200 by 200, with the pointer at \<open>(185, 100)\<close> in collision mode: the pointer
  adds \<open>0.005\<close> to \<open>dirX\<close>, no border check fires, and the step ends at \<open>x = 190.003\<close>,
  beyond \<open>width - radius = 190\<close>.
\<close>

theorem containment_counterexample:
  "\<not> (x (move \<lparr>x = 189.998, y = 100, size_p = 10, dirX = 0, dirY = 0, color = ''#0000ff''\<rparr>
             (Some \<lparr>width = 200, height = 200\<rparr>) \<lparr>x = 185, y = 100\<rparr>
             [\<lparr>x = 189.998, y = 100, size_p = 10, dirX = 0, dirY = 0, color = ''#0000ff''\<rparr>]
             0 collision False)
        \<le> width \<lparr>width = 200, height = 200\<rparr> -
          size_p (move \<lparr>x = 189.998, y = 100, size_p = 10, dirX = 0, dirY = 0, color = ''#0000ff''\<rparr>
             (Some \<lparr>width = 200, height = 200\<rparr>) \<lparr>x = 185, y = 100\<rparr>
             [\<lparr>x = 189.998, y = 100, size_p = 10, dirX = 0, dirY = 0, color = ''#0000ff''\<rparr>]
             0 collision False))"
  by (simp add: move_def collisions_def collideWithOthers.simps collideWithRadius_def
      MOUSE_COLLISION_RADIUS_def PARTICLE_COLLISION_VELOCITY_def bounce_def bounceX_def
      bounceY_def borderX_def borderY_def mainMovement_def velocityLeak_def Let_def)

text \<open>
  C1 (amended). The position is inside \<open>[radius, width - radius]\<close> and
  \<open>[radius, height - radius]\<close> after the border handling of lines 79-90, before the main
  movement, when the arena is at least one diameter wide and high. The step then ends by
  adding the velocity to the position (lines 93-94), which nothing clamps, so at the end of
  \<open>move\<close> the centre is that clamped position plus \<open>(dirX, dirY)\<close>; the radius is unchanged.
\<close>

theorem containment_after_bounce:
  assumes "2 * size_p this \<le> width cv" and "2 * size_p this \<le> height cv"
  shows "size_p this \<le> x (bounce cv (collisions this mousePos particlesArr self mode)) \<and>
         x (bounce cv (collisions this mousePos particlesArr self mode)) \<le> width cv - size_p this \<and>
         size_p this \<le> y (bounce cv (collisions this mousePos particlesArr self mode)) \<and>
         y (bounce cv (collisions this mousePos particlesArr self mode)) \<le> height cv - size_p this \<and>
         size_p (move this (Some cv) mousePos particlesArr self mode velocity_leak) = size_p this \<and>
         x (move this (Some cv) mousePos particlesArr self mode velocity_leak) =
           x (bounce cv (collisions this mousePos particlesArr self mode)) +
           dirX (bounce cv (collisions this mousePos particlesArr self mode)) \<and>
         y (move this (Some cv) mousePos particlesArr self mode velocity_leak) =
           y (bounce cv (collisions this mousePos particlesArr self mode)) +
           dirY (bounce cv (collisions this mousePos particlesArr self mode))"
  using assms by (simp add: move_Some bounce_sel) (simp add: borderX_def borderY_def)

theorem containment_after_bounce_witness:
  "2 * size_p \<lparr>x = 189.998, y = 100, size_p = 10, dirX = 0, dirY = 0, color = ''#0000ff''\<rparr>
     \<le> width \<lparr>width = 200, height = 200\<rparr> \<and>
   2 * size_p \<lparr>x = 189.998, y = 100, size_p = 10, dirX = 0, dirY = 0, color = ''#0000ff''\<rparr>
     \<le> height \<lparr>width = 200, height = 200\<rparr> \<and>
   x (bounce \<lparr>width = 200, height = 200\<rparr>
        (collisions \<lparr>x = 189.998, y = 100, size_p = 10, dirX = 0, dirY = 0, color = ''#0000ff''\<rparr>
           \<lparr>x = 185, y = 100\<rparr>
           [\<lparr>x = 189.998, y = 100, size_p = 10, dirX = 0, dirY = 0, color = ''#0000ff''\<rparr>]
           0 collision)) \<le> 190 \<and>
   x (move \<lparr>x = 189.998, y = 100, size_p = 10, dirX = 0, dirY = 0, color = ''#0000ff''\<rparr>
        (Some \<lparr>width = 200, height = 200\<rparr>) \<lparr>x = 185, y = 100\<rparr>
        [\<lparr>x = 189.998, y = 100, size_p = 10, dirX = 0, dirY = 0, color = ''#0000ff''\<rparr>]
        0 collision False) = 190.003"
  using containment_after_bounce
    [of "\<lparr>x = 189.998, y = 100, size_p = 10, dirX = 0, dirY = 0, color = ''#0000ff''\<rparr>"
        "\<lparr>width = 200, height = 200\<rparr>" "\<lparr>x = 185, y = 100\<rparr>"
        "[\<lparr>x = 189.998, y = 100, size_p = 10, dirX = 0, dirY = 0, color = ''#0000ff''\<rparr>]"
        0 collision False]
  by (simp add: collisions_def collideWithOthers.simps collideWithRadius_def
      MOUSE_COLLISION_RADIUS_def PARTICLE_COLLISION_VELOCITY_def bounce_def bounceX_def
      bounceY_def borderX_def borderY_def Let_def)

subsection \<open>The pointer in edit mode (C2)\<close>

text \<open>
  C2. In edit mode the result of \<open>move\<close> is the same for any two pointer positions,
  whatever the particle, the canvas, the array and the leak switch: the collision stage
  is the loop over the other particles alone, so the pointer changes no velocity.
\<close>

theorem edit_mode_ignores_pointer:
  "move this canvas mousePos1 particlesArr self edit velocity_leak =
   move this canvas mousePos2 particlesArr self edit velocity_leak \<and>
   collisions this mousePos1 particlesArr self edit = collideWithOthers this particlesArr self 0"
  by (simp add: move_def collisions_def split: option.split)

subsection \<open>The border example (C3)\<close>

text \<open>
  Counterexample to C3 as stated. Arena 200 by 200, radius 10, the particle alone at
  \<open>x = 200 - 10 - 0.5\<close> with \<open>dirX = 1\<close>: the X check of line 80 does not fire
  (\<open>x + size = 199.5 < 200\<close>), \<open>dirX\<close> is not \<open>-0.5\<close> after the step, and \<open>x\<close> ends at
  \<open>200 - 10 + 0.5\<close>.
\<close>

theorem border_check_example_counterexample:
  "\<not> borderX \<lparr>width = 200, height = 200\<rparr>
       (collisions \<lparr>x = 200 - 10 - 0.5, y = 100, size_p = 10, dirX = 1, dirY = 0, color = ''#ff0000''\<rparr>
          \<lparr>x = 0, y = 0\<rparr>
          [\<lparr>x = 200 - 10 - 0.5, y = 100, size_p = 10, dirX = 1, dirY = 0, color = ''#ff0000''\<rparr>]
          0 edit) \<and>
   dirX (move \<lparr>x = 200 - 10 - 0.5, y = 100, size_p = 10, dirX = 1, dirY = 0, color = ''#ff0000''\<rparr>
          (Some \<lparr>width = 200, height = 200\<rparr>) \<lparr>x = 0, y = 0\<rparr>
          [\<lparr>x = 200 - 10 - 0.5, y = 100, size_p = 10, dirX = 1, dirY = 0, color = ''#ff0000''\<rparr>]
          0 edit False) \<noteq> - 0.5 \<and>
   x (move \<lparr>x = 200 - 10 - 0.5, y = 100, size_p = 10, dirX = 1, dirY = 0, color = ''#ff0000''\<rparr>
          (Some \<lparr>width = 200, height = 200\<rparr>) \<lparr>x = 0, y = 0\<rparr>
          [\<lparr>x = 200 - 10 - 0.5, y = 100, size_p = 10, dirX = 1, dirY = 0, color = ''#ff0000''\<rparr>]
          0 edit False) = 200 - 10 + 0.5"
  by (simp add: move_def collisions_def collideWithOthers.simps bounce_def bounceX_def
      bounceY_def borderX_def borderY_def mainMovement_def velocityLeak_def Let_def)

text \<open>
  C3 (amended). For a particle with no colliding neighbour at \<open>x = width - radius - 0.5\<close>
  with \<open>dirX = 1\<close> (with \<open>radius < x\<close>, no contact with the Y border, the leak off), one step
  does not fire the X border check: \<open>dirX\<close> is still 1 and \<open>x\<close> becomes
  \<open>width - radius + 0.5\<close>. The check fires in the next step (again without collisions and
  away from the Y border): there \<open>dirX\<close> becomes \<open>-0.5\<close> and \<open>x\<close> is clamped to
  \<open>width - radius\<close>, before the main movement takes it to \<open>width - radius - 0.5\<close>.
\<close>

theorem border_check_fires_on_next_step:
  assumes "x this = width cv - size_p this - 0.5" and "dirX this = 1"
    and "0 < x this - size_p this"
    and "\<not> borderY cv this"
    and "mode = collision \<longrightarrow> \<not> collides this mousePos MOUSE_COLLISION_RADIUS"
    and "\<forall>j. j < length particlesArr \<and> j \<noteq> self \<longrightarrow>
           \<not> collides this (particlesArr ! j) (size_p (particlesArr ! j))"
    and "this1 = move this (Some cv) mousePos particlesArr self mode False"
    and "\<not> borderY cv this1"
    and "mode' = collision \<longrightarrow> \<not> collides this1 mousePos' MOUSE_COLLISION_RADIUS"
    and "\<forall>j. j < length particlesArr' \<and> j \<noteq> self' \<longrightarrow>
           \<not> collides this1 (particlesArr' ! j) (size_p (particlesArr' ! j))"
  shows "\<not> (x this + size_p this \<ge> width cv \<or> x this - size_p this \<le> 0) \<and>
         dirX this1 = 1 \<and>
         x this1 = width cv - size_p this + 0.5 \<and>
         (x this1 + size_p this1 \<ge> width cv \<or> x this1 - size_p this1 \<le> 0) \<and>
         dirX (bounce cv (collisions this1 mousePos' particlesArr' self' mode')) = - 0.5 \<and>
         x (bounce cv (collisions this1 mousePos' particlesArr' self' mode')) = width cv - size_p this \<and>
         x (move this1 (Some cv) mousePos' particlesArr' self' mode' velocity_leak) =
           width cv - size_p this - 0.5"
proof -
  have c1: "collisions this mousePos particlesArr self mode = this"
    using assms(5,6) by (rule collisions_miss)
  have nbx: "\<not> borderX cv this"
    using assms(1,3) by (simp add: borderX_def)
  have b1: "bounce cv this = this"
    using nbx assms(4) by (rule bounce_quiet)
  have n: "this1 = mainMovement this"
    using assms(7) by (simp add: move_Some c1 b1 velocityLeak_def)
  have nx: "x this1 = width cv - size_p this + 0.5" and nd: "dirX this1 = 1"
    and ns: "size_p this1 = size_p this"
    using assms(1,2) by (simp_all add: n)
  have c2: "collisions this1 mousePos' particlesArr' self' mode' = this1"
    using assms(9,10) by (rule collisions_miss)
  have bx: "borderX cv this1"
    using nx ns by (simp add: borderX_def)
  have sz: "size_p this \<le> width cv - size_p this"
    using assms(1,3) by simp
  show ?thesis
    using nbx nx nd ns bx assms(8) sz
    by (simp add: move_Some c2 bounce_sel) (simp add: borderX_def)
qed

theorem border_check_fires_on_next_step_witness:
  "x \<lparr>x = 189.5, y = 100, size_p = 10, dirX = 1, dirY = 0, color = ''#ff0000''\<rparr> =
     width \<lparr>width = 200, height = 200\<rparr> -
     size_p \<lparr>x = 189.5, y = 100, size_p = 10, dirX = 1, dirY = 0, color = ''#ff0000''\<rparr> - 0.5 \<and>
   move \<lparr>x = 189.5, y = 100, size_p = 10, dirX = 1, dirY = 0, color = ''#ff0000''\<rparr>
     (Some \<lparr>width = 200, height = 200\<rparr>) \<lparr>x = 0, y = 0\<rparr>
     [\<lparr>x = 189.5, y = 100, size_p = 10, dirX = 1, dirY = 0, color = ''#ff0000''\<rparr>] 0 edit False
     = \<lparr>x = 190.5, y = 100, size_p = 10, dirX = 1, dirY = 0, color = ''#ff0000''\<rparr> \<and>
   x (move \<lparr>x = 190.5, y = 100, size_p = 10, dirX = 1, dirY = 0, color = ''#ff0000''\<rparr>
       (Some \<lparr>width = 200, height = 200\<rparr>) \<lparr>x = 0, y = 0\<rparr>
       [\<lparr>x = 190.5, y = 100, size_p = 10, dirX = 1, dirY = 0, color = ''#ff0000''\<rparr>] 0 edit False)
     = 189.5 \<and>
   dirX (bounce \<lparr>width = 200, height = 200\<rparr>
       (collisions \<lparr>x = 190.5, y = 100, size_p = 10, dirX = 1, dirY = 0, color = ''#ff0000''\<rparr>
          \<lparr>x = 0, y = 0\<rparr>
          [\<lparr>x = 190.5, y = 100, size_p = 10, dirX = 1, dirY = 0, color = ''#ff0000''\<rparr>] 0 edit))
     = - 0.5"
proof -
  have m: "move \<lparr>x = 189.5, y = 100, size_p = 10, dirX = 1, dirY = 0, color = ''#ff0000''\<rparr>
     (Some \<lparr>width = 200, height = 200\<rparr>) \<lparr>x = 0, y = 0\<rparr>
     [\<lparr>x = 189.5, y = 100, size_p = 10, dirX = 1, dirY = 0, color = ''#ff0000''\<rparr>] 0 edit False
     = \<lparr>x = 190.5, y = 100, size_p = 10, dirX = 1, dirY = 0, color = ''#ff0000''\<rparr>"
    by (simp add: move_def collisions_def collideWithOthers.simps bounce_def bounceX_def
        bounceY_def borderX_def borderY_def mainMovement_def velocityLeak_def Let_def)
  show ?thesis
    using border_check_fires_on_next_step
      [of "\<lparr>x = 189.5, y = 100, size_p = 10, dirX = 1, dirY = 0, color = ''#ff0000''\<rparr>"
          "\<lparr>width = 200, height = 200\<rparr>" edit "\<lparr>x = 0, y = 0\<rparr>"
          "[\<lparr>x = 189.5, y = 100, size_p = 10, dirX = 1, dirY = 0, color = ''#ff0000''\<rparr>]" 0
          "\<lparr>x = 190.5, y = 100, size_p = 10, dirX = 1, dirY = 0, color = ''#ff0000''\<rparr>"
          edit "\<lparr>x = 0, y = 0\<rparr>"
          "[\<lparr>x = 190.5, y = 100, size_p = 10, dirX = 1, dirY = 0, color = ''#ff0000''\<rparr>]" 0
          False] m
    by (simp add: borderY_def)
qed

subsection \<open>The pointer on the centre (C4)\<close>

text \<open>
  C4. Arena 200 by 200, one particle at \<open>(100, 100)\<close> with radius 10 and velocity
  \<open>(0, 0)\<close>, the pointer at \<open>(100, 100)\<close>, collision mode: the collision test holds
  (distance 0 below 10 + 10), \<open>collideWithRadius\<close> leaves the particle as it is, since no
  comparison of the coordinates is strict, and so does the whole step.
\<close>

theorem pointer_on_center_no_impulse:
  "collides \<lparr>x = 100, y = 100, size_p = 10, dirX = 0, dirY = 0, color = c\<rparr>
            \<lparr>x = 100, y = 100\<rparr> MOUSE_COLLISION_RADIUS \<and>
   collideWithRadius \<lparr>x = 100, y = 100, size_p = 10, dirX = 0, dirY = 0, color = c\<rparr>
            \<lparr>x = 100, y = 100\<rparr> MOUSE_COLLISION_RADIUS
     = \<lparr>x = 100, y = 100, size_p = 10, dirX = 0, dirY = 0, color = c\<rparr> \<and>
   move \<lparr>x = 100, y = 100, size_p = 10, dirX = 0, dirY = 0, color = c\<rparr>
        (Some \<lparr>width = 200, height = 200\<rparr>) \<lparr>x = 100, y = 100\<rparr>
        [\<lparr>x = 100, y = 100, size_p = 10, dirX = 0, dirY = 0, color = c\<rparr>] 0 collision velocity_leak
     = \<lparr>x = 100, y = 100, size_p = 10, dirX = 0, dirY = 0, color = c\<rparr>"
  by (simp add: collides_def collideWithRadius_def MOUSE_COLLISION_RADIUS_def move_def
      collisions_def collideWithOthers.simps bounce_def bounceX_def bounceY_def borderX_def
      borderY_def mainMovement_def velocityLeak_def Let_def)

subsection \<open>Corner collisions (C5)\<close>

text \<open>
  C5. When the X condition (\<open>x + size \<ge> width\<close> or \<open>x - size \<le> 0\<close>) and the Y condition
  (\<open>y + size \<ge> height\<close> or \<open>y - size \<le> 0\<close>) both hold, the velocity after the border
  handling is \<open>dirX * (-0.5) * 0.5\<close> and \<open>dirY * 0.5 * (-0.5)\<close> of the velocity the
  collisions left, and the main movement adds \<open>-0.25 * dirX\<close> and \<open>-0.25 * dirY\<close> to the
  clamped position.
\<close>

theorem corner_damps_both_axes_twice:
  assumes "x this + size_p this \<ge> width cv \<or> x this - size_p this \<le> 0"
    and "y this + size_p this \<ge> height cv \<or> y this - size_p this \<le> 0"
  shows "dirX (bounce cv (collisions this mousePos particlesArr self mode)) =
           dirX (collisions this mousePos particlesArr self mode) * (- 0.5) * 0.5 \<and>
         dirY (bounce cv (collisions this mousePos particlesArr self mode)) =
           dirY (collisions this mousePos particlesArr self mode) * 0.5 * (- 0.5) \<and>
         x (move this (Some cv) mousePos particlesArr self mode velocity_leak) =
           min (max (size_p this) (x this)) (width cv - size_p this) +
           - 0.25 * dirX (collisions this mousePos particlesArr self mode) \<and>
         y (move this (Some cv) mousePos particlesArr self mode velocity_leak) =
           min (max (size_p this) (y this)) (height cv - size_p this) +
           - 0.25 * dirY (collisions this mousePos particlesArr self mode)"
proof -
  from assms have "borderX cv this" and "borderY cv this"
    by (simp_all add: borderX_def borderY_def)
  then show ?thesis
    by (simp add: move_Some bounce_sel)
qed

theorem corner_damps_both_axes_twice_witness:
  "(x \<lparr>x = 195, y = 195, size_p = 10, dirX = 1, dirY = 2, color = ''#00ff00''\<rparr> +
      size_p \<lparr>x = 195, y = 195, size_p = 10, dirX = 1, dirY = 2, color = ''#00ff00''\<rparr>
      \<ge> width \<lparr>width = 200, height = 200\<rparr>) \<and>
   (y \<lparr>x = 195, y = 195, size_p = 10, dirX = 1, dirY = 2, color = ''#00ff00''\<rparr> +
      size_p \<lparr>x = 195, y = 195, size_p = 10, dirX = 1, dirY = 2, color = ''#00ff00''\<rparr>
      \<ge> height \<lparr>width = 200, height = 200\<rparr>) \<and>
   move \<lparr>x = 195, y = 195, size_p = 10, dirX = 1, dirY = 2, color = ''#00ff00''\<rparr>
     (Some \<lparr>width = 200, height = 200\<rparr>) \<lparr>x = 0, y = 0\<rparr>
     [\<lparr>x = 195, y = 195, size_p = 10, dirX = 1, dirY = 2, color = ''#00ff00''\<rparr>] 0 edit False
   = \<lparr>x = 189.75, y = 189.5, size_p = 10, dirX = - 0.25, dirY = - 0.5, color = ''#00ff00''\<rparr>"
  using corner_damps_both_axes_twice
    [of "\<lparr>width = 200, height = 200\<rparr>"
        "\<lparr>x = 195, y = 195, size_p = 10, dirX = 1, dirY = 2, color = ''#00ff00''\<rparr>"
        "\<lparr>x = 0, y = 0\<rparr>"
        "[\<lparr>x = 195, y = 195, size_p = 10, dirX = 1, dirY = 2, color = ''#00ff00''\<rparr>]"
        0 edit False]
  by (simp add: move_def collisions_def collideWithOthers.simps bounce_def bounceX_def
      bounceY_def borderX_def borderY_def mainMovement_def velocityLeak_def Let_def)

subsection \<open>The velocity leak (C6)\<close>

text \<open>
  Counterexample to C6 as stated. In the example run the particle has
  \<open>dirX = 249 / 2 ^ 1074\<close>, which is not zero. Frame 0 is calm and the leak is on, but
  \<open>dirX * 0.002\<close> rounds to 0 in line 98 and \<open>dirX\<close> is the same after the frame: its
  magnitude has not got smaller. It is still the same in frame 1000000, so it does not
  approach zero.
\<close>

theorem velocity_leak_counterexample:
  "calmFrame64 run_host [run_particle 249] 0 0 \<and>
   dirX (frames64 run_host 0 [run_particle 249] ! 0) \<noteq> 0 \<and>
   \<not> \<bar>dirX (frames64 run_host (Suc 0) [run_particle 249] ! 0)\<bar>
       < \<bar>dirX (frames64 run_host 0 [run_particle 249] ! 0)\<bar> \<and>
   dirX (frames64 run_host (Suc 0) [run_particle 249] ! 0) = 249 / 2 ^ 1074 \<and>
   calmFrame64 run_host [run_particle 249] 0 1000000 \<and>
   dirX (frames64 run_host 1000000 [run_particle 249] ! 0) = 249 / 2 ^ 1074"
  unfolding run_frames_249 using run_calm_249 by simp

text \<open>
  C6 (amended). Take a particle of a run of frames whose velocity components are
  binary64 values. If in each of the first \<open>N\<close> frames the leak is on and the particle is
  undisturbed (no collision with the pointer or with another particle, no border check
  firing), then in each of these frames the magnitude of \<open>dirX\<close> and of \<open>dirY\<close> does not
  grow and the sign of each component stays as it is (a component that is not zero does
  not become zero); the magnitude gets strictly smaller while it is at least
  \<open>250 / 2 ^ 1074\<close>, and a component of magnitude at most \<open>249 / 2 ^ 1074\<close> is left as
  it is. If every frame is such a frame, each component is, from some frame on, constant
  with a magnitude of at most \<open>249 / 2 ^ 1074\<close>: it decays to a negligible value, not
  towards zero.
\<close>

theorem velocity_leak_binary64:
  assumes "i < length particles"
    and "isDouble (dirX (particles ! i))" and "isDouble (dirY (particles ! i))"
  shows "((\<forall>n < N. calmFrame64 host particles i n) \<longrightarrow>
           (\<forall>n < N.
              \<bar>dirX (frames64 host (Suc n) particles ! i)\<bar> \<le> \<bar>dirX (frames64 host n particles ! i)\<bar> \<and>
              sgn (dirX (frames64 host (Suc n) particles ! i)) = sgn (dirX (frames64 host n particles ! i)) \<and>
              (250 / 2 ^ 1074 \<le> \<bar>dirX (frames64 host n particles ! i)\<bar> \<longrightarrow>
                 \<bar>dirX (frames64 host (Suc n) particles ! i)\<bar> < \<bar>dirX (frames64 host n particles ! i)\<bar>) \<and>
              (\<bar>dirX (frames64 host n particles ! i)\<bar> \<le> 249 / 2 ^ 1074 \<longrightarrow>
                 dirX (frames64 host (Suc n) particles ! i) = dirX (frames64 host n particles ! i)) \<and>
              \<bar>dirY (frames64 host (Suc n) particles ! i)\<bar> \<le> \<bar>dirY (frames64 host n particles ! i)\<bar> \<and>
              sgn (dirY (frames64 host (Suc n) particles ! i)) = sgn (dirY (frames64 host n particles ! i)) \<and>
              (250 / 2 ^ 1074 \<le> \<bar>dirY (frames64 host n particles ! i)\<bar> \<longrightarrow>
                 \<bar>dirY (frames64 host (Suc n) particles ! i)\<bar> < \<bar>dirY (frames64 host n particles ! i)\<bar>) \<and>
              (\<bar>dirY (frames64 host n particles ! i)\<bar> \<le> 249 / 2 ^ 1074 \<longrightarrow>
                 dirY (frames64 host (Suc n) particles ! i) = dirY (frames64 host n particles ! i)))) \<and>
         ((\<forall>n. calmFrame64 host particles i n) \<longrightarrow>
            (\<exists>n0. \<forall>n \<ge> n0.
               dirX (frames64 host n particles ! i) = dirX (frames64 host n0 particles ! i) \<and>
               \<bar>dirX (frames64 host n0 particles ! i)\<bar> \<le> 249 / 2 ^ 1074) \<and>
            (\<exists>n0. \<forall>n \<ge> n0.
               dirY (frames64 host n particles ! i) = dirY (frames64 host n0 particles ! i) \<and>
               \<bar>dirY (frames64 host n0 particles ! i)\<bar> \<le> 249 / 2 ^ 1074))"
proof (intro conjI impI allI)
  fix n
  assume calm: "\<forall>n < N. calmFrame64 host particles i n" and nN: "n < N"
  then have c: "calmFrame64 host particles i n" by simp
  from calm nN have "\<forall>k < n. calmFrame64 host particles i k" by simp
  note now = calmFrame64_funpow [OF assms(1) this]
  note step = calmFrame64_step [OF assms(1) c]
  have dx: "isDouble (dirX (frames64 host n particles ! i))"
    using isDouble_funpow [OF assms(2), of n] by (simp only: now)
  have dy: "isDouble (dirY (frames64 host n particles ! i))"
    using isDouble_funpow [OF assms(3), of n] by (simp only: now)
  note lx = leak64_double [OF dx, folded step(1)]
  note ly = leak64_double [OF dy, folded step(2)]
  show "\<bar>dirX (frames64 host (Suc n) particles ! i)\<bar> \<le> \<bar>dirX (frames64 host n particles ! i)\<bar>"
    using lx by blast
  show "sgn (dirX (frames64 host (Suc n) particles ! i)) = sgn (dirX (frames64 host n particles ! i))"
    using lx by blast
  show "\<bar>dirX (frames64 host (Suc n) particles ! i)\<bar> < \<bar>dirX (frames64 host n particles ! i)\<bar>"
    if "250 / 2 ^ 1074 \<le> \<bar>dirX (frames64 host n particles ! i)\<bar>"
    using lx that by blast
  show "dirX (frames64 host (Suc n) particles ! i) = dirX (frames64 host n particles ! i)"
    if "\<bar>dirX (frames64 host n particles ! i)\<bar> \<le> 249 / 2 ^ 1074"
    using lx that by blast
  show "\<bar>dirY (frames64 host (Suc n) particles ! i)\<bar> \<le> \<bar>dirY (frames64 host n particles ! i)\<bar>"
    using ly by blast
  show "sgn (dirY (frames64 host (Suc n) particles ! i)) = sgn (dirY (frames64 host n particles ! i))"
    using ly by blast
  show "\<bar>dirY (frames64 host (Suc n) particles ! i)\<bar> < \<bar>dirY (frames64 host n particles ! i)\<bar>"
    if "250 / 2 ^ 1074 \<le> \<bar>dirY (frames64 host n particles ! i)\<bar>"
    using ly that by blast
  show "dirY (frames64 host (Suc n) particles ! i) = dirY (frames64 host n particles ! i)"
    if "\<bar>dirY (frames64 host n particles ! i)\<bar> \<le> 249 / 2 ^ 1074"
    using ly that by blast
next
  assume calm: "\<forall>n. calmFrame64 host particles i n"
  have all: "dirX (frames64 host n particles ! i) = (leak64 ^^ n) (dirX (particles ! i))" for n
    using calmFrame64_funpow [OF assms(1), of n host] calm by blast
  from leak64_stalls [OF assms(2)] show "\<exists>n0. \<forall>n \<ge> n0.
      dirX (frames64 host n particles ! i) = dirX (frames64 host n0 particles ! i) \<and>
      \<bar>dirX (frames64 host n0 particles ! i)\<bar> \<le> 249 / 2 ^ 1074"
    by (simp only: all)
next
  assume calm: "\<forall>n. calmFrame64 host particles i n"
  have all: "dirY (frames64 host n particles ! i) = (leak64 ^^ n) (dirY (particles ! i))" for n
    using calmFrame64_funpow [OF assms(1), of n host] calm by blast
  from leak64_stalls [OF assms(3)] show "\<exists>n0. \<forall>n \<ge> n0.
      dirY (frames64 host n particles ! i) = dirY (frames64 host n0 particles ! i) \<and>
      \<bar>dirY (frames64 host n0 particles ! i)\<bar> \<le> 249 / 2 ^ 1074"
    by (simp only: all)
qed

theorem velocity_leak_binary64_witness:
  "0 < length [run_particle 250] \<and>
   isDouble (dirX ([run_particle 250] ! 0)) \<and>
   isDouble (dirY ([run_particle 250] ! 0)) \<and>
   (\<forall>n. calmFrame64 run_host [run_particle 250] 0 n) \<and>
   250 / 2 ^ 1074 \<le> \<bar>dirX (frames64 run_host 0 [run_particle 250] ! 0)\<bar> \<and>
   \<bar>dirX (frames64 run_host (Suc 0) [run_particle 250] ! 0)\<bar>
     < \<bar>dirX (frames64 run_host 0 [run_particle 250] ! 0)\<bar> \<and>
   sgn (dirX (frames64 run_host (Suc 0) [run_particle 250] ! 0))
     = sgn (dirX (frames64 run_host 0 [run_particle 250] ! 0)) \<and>
   (\<exists>n0. \<forall>n \<ge> n0.
      dirX (frames64 run_host n [run_particle 250] ! 0)
        = dirX (frames64 run_host n0 [run_particle 250] ! 0) \<and>
      \<bar>dirX (frames64 run_host n0 [run_particle 250] ! 0)\<bar> \<le> 249 / 2 ^ 1074)"
proof -
  have len: "0 < length [run_particle 250]" by simp
  have "isDouble (real 250 / 2 ^ 1074)" by (rule isDouble_units_small) simp
  then have dx: "isDouble (dirX ([run_particle 250] ! 0))" by simp
  have "isDouble (real 0 / 2 ^ 1074)" by (rule isDouble_units_small) simp
  then have dy: "isDouble (dirY ([run_particle 250] ! 0))" by simp
  have calm: "\<forall>n. calmFrame64 run_host [run_particle 250] 0 n"
    using run_calm by blast
  then have calm1: "\<forall>n < Suc 0. calmFrame64 run_host [run_particle 250] 0 n"
    by blast
  have big: "250 / 2 ^ 1074 \<le> \<bar>dirX (frames64 run_host 0 [run_particle 250] ! 0)\<bar>"
    by simp
  note t = velocity_leak_binary64 [OF len dx dy, of "Suc 0" run_host]
  from t calm1 big
  have less: "\<bar>dirX (frames64 run_host (Suc 0) [run_particle 250] ! 0)\<bar>
     < \<bar>dirX (frames64 run_host 0 [run_particle 250] ! 0)\<bar>"
    by blast
  from t calm1
  have same: "sgn (dirX (frames64 run_host (Suc 0) [run_particle 250] ! 0))
     = sgn (dirX (frames64 run_host 0 [run_particle 250] ! 0))"
    by blast
  from t calm
  have stall: "\<exists>n0. \<forall>n \<ge> n0.
      dirX (frames64 run_host n [run_particle 250] ! 0)
        = dirX (frames64 run_host n0 [run_particle 250] ! 0) \<and>
      \<bar>dirX (frames64 run_host n0 [run_particle 250] ! 0)\<bar> \<le> 249 / 2 ^ 1074"
    by blast
  from len dx dy calm big less same stall show ?thesis
    by (intro conjI)
qed

subsection \<open>The movement and the leak (C7)\<close>

text \<open>
  C7. The new position is the position after the border handling plus the velocity
  after the collisions and the border handling, with or without the leak; the velocity
  that \<open>move\<close> leaves is that velocity less its \<open>PARTICLE_VELOCITY_LEAK_MODIFIER\<close> part when
  the leak is on, and that velocity itself when it is off.
\<close>

theorem movement_uses_velocity_before_leak:
  "x (move this (Some cv) mousePos particlesArr self mode velocity_leak) =
     x (bounce cv (collisions this mousePos particlesArr self mode)) +
     dirX (bounce cv (collisions this mousePos particlesArr self mode)) \<and>
   y (move this (Some cv) mousePos particlesArr self mode velocity_leak) =
     y (bounce cv (collisions this mousePos particlesArr self mode)) +
     dirY (bounce cv (collisions this mousePos particlesArr self mode)) \<and>
   dirX (move this (Some cv) mousePos particlesArr self mode True) =
     dirX (bounce cv (collisions this mousePos particlesArr self mode)) -
     dirX (bounce cv (collisions this mousePos particlesArr self mode)) *
       PARTICLE_VELOCITY_LEAK_MODIFIER \<and>
   dirY (move this (Some cv) mousePos particlesArr self mode True) =
     dirY (bounce cv (collisions this mousePos particlesArr self mode)) -
     dirY (bounce cv (collisions this mousePos particlesArr self mode)) *
       PARTICLE_VELOCITY_LEAK_MODIFIER \<and>
   dirX (move this (Some cv) mousePos particlesArr self mode False) =
     dirX (bounce cv (collisions this mousePos particlesArr self mode)) \<and>
   dirY (move this (Some cv) mousePos particlesArr self mode False) =
     dirY (bounce cv (collisions this mousePos particlesArr self mode))"
  by (simp add: move_Some velocityLeak_def)

subsection \<open>Picking a particle (C8)\<close>

text \<open>
  C8. \<open>findParticleWithCords\<close> returns \<open>None\<close> exactly when the point is in the square
  \<open>[x - size, x + size] \<times> [y - size, y + size]\<close> of no particle, and returns \<open>Some q\<close>
  exactly when \<open>q\<close> is the particle at the first index whose square holds the point.
\<close>

theorem findParticleWithCords_first:
  "(findParticleWithCords particles px py = None \<longleftrightarrow>
      (\<forall>p \<in> set particles.
         \<not> (px \<in> {x p - size_p p .. x p + size_p p} \<and> py \<in> {y p - size_p p .. y p + size_p p}))) \<and>
   (findParticleWithCords particles px py = Some q \<longleftrightarrow>
      (\<exists>i < length particles. particles ! i = q \<and>
         px \<in> {x q - size_p q .. x q + size_p q} \<and> py \<in> {y q - size_p q .. y q + size_p q} \<and>
         (\<forall>j < i. \<not> (px \<in> {x (particles ! j) - size_p (particles ! j) ..
                              x (particles ! j) + size_p (particles ! j)} \<and>
                      py \<in> {y (particles ! j) - size_p (particles ! j) ..
                              y (particles ! j) + size_p (particles ! j)}))))"
  unfolding findParticleWithCords_def find_None_iff find_Some_iff
  by (simp add: conj_ac) blast

theorem findParticleWithCords_first_witness:
  "findParticleWithCords
     [\<lparr>x = 50, y = 50, size_p = 5, dirX = 0, dirY = 0, color = ''#ff0000''\<rparr>,
      \<lparr>x = 100, y = 100, size_p = 10, dirX = 0, dirY = 0, color = ''#00ff00''\<rparr>,
      \<lparr>x = 105, y = 100, size_p = 10, dirX = 0, dirY = 0, color = ''#0000ff''\<rparr>] 102 100
     = Some \<lparr>x = 100, y = 100, size_p = 10, dirX = 0, dirY = 0, color = ''#00ff00''\<rparr> \<and>
   (\<exists>i < length
       [\<lparr>x = 50, y = 50, size_p = 5, dirX = 0, dirY = 0, color = ''#ff0000''\<rparr>,
        \<lparr>x = 100, y = 100, size_p = 10, dirX = 0, dirY = 0, color = ''#00ff00''\<rparr>,
        \<lparr>x = 105, y = 100, size_p = 10, dirX = 0, dirY = 0, color = ''#0000ff''\<rparr>].
      [\<lparr>x = 50, y = 50, size_p = 5, dirX = 0, dirY = 0, color = ''#ff0000''\<rparr>,
       \<lparr>x = 100, y = 100, size_p = 10, dirX = 0, dirY = 0, color = ''#00ff00''\<rparr>,
       \<lparr>x = 105, y = 100, size_p = 10, dirX = 0, dirY = 0, color = ''#0000ff''\<rparr>] ! i
        = \<lparr>x = 100, y = 100, size_p = 10, dirX = 0, dirY = 0, color = ''#00ff00''\<rparr> \<and>
      (\<forall>j < i. \<not> ((102::real) \<in>
         {x ([\<lparr>x = 50, y = 50, size_p = 5, dirX = 0, dirY = 0, color = ''#ff0000''\<rparr>,
              \<lparr>x = 100, y = 100, size_p = 10, dirX = 0, dirY = 0, color = ''#00ff00''\<rparr>,
              \<lparr>x = 105, y = 100, size_p = 10, dirX = 0, dirY = 0, color = ''#0000ff''\<rparr>] ! j) -
            size_p ([\<lparr>x = 50, y = 50, size_p = 5, dirX = 0, dirY = 0, color = ''#ff0000''\<rparr>,
              \<lparr>x = 100, y = 100, size_p = 10, dirX = 0, dirY = 0, color = ''#00ff00''\<rparr>,
              \<lparr>x = 105, y = 100, size_p = 10, dirX = 0, dirY = 0, color = ''#0000ff''\<rparr>] ! j) ..
          x ([\<lparr>x = 50, y = 50, size_p = 5, dirX = 0, dirY = 0, color = ''#ff0000''\<rparr>,
              \<lparr>x = 100, y = 100, size_p = 10, dirX = 0, dirY = 0, color = ''#00ff00''\<rparr>,
              \<lparr>x = 105, y = 100, size_p = 10, dirX = 0, dirY = 0, color = ''#0000ff''\<rparr>] ! j) +
            size_p ([\<lparr>x = 50, y = 50, size_p = 5, dirX = 0, dirY = 0, color = ''#ff0000''\<rparr>,
              \<lparr>x = 100, y = 100, size_p = 10, dirX = 0, dirY = 0, color = ''#00ff00''\<rparr>,
              \<lparr>x = 105, y = 100, size_p = 10, dirX = 0, dirY = 0, color = ''#0000ff''\<rparr>] ! j)} \<and>
         (100::real) \<in>
         {y ([\<lparr>x = 50, y = 50, size_p = 5, dirX = 0, dirY = 0, color = ''#ff0000''\<rparr>,
              \<lparr>x = 100, y = 100, size_p = 10, dirX = 0, dirY = 0, color = ''#00ff00''\<rparr>,
              \<lparr>x = 105, y = 100, size_p = 10, dirX = 0, dirY = 0, color = ''#0000ff''\<rparr>] ! j) -
            size_p ([\<lparr>x = 50, y = 50, size_p = 5, dirX = 0, dirY = 0, color = ''#ff0000''\<rparr>,
              \<lparr>x = 100, y = 100, size_p = 10, dirX = 0, dirY = 0, color = ''#00ff00''\<rparr>,
              \<lparr>x = 105, y = 100, size_p = 10, dirX = 0, dirY = 0, color = ''#0000ff''\<rparr>] ! j) ..
          y ([\<lparr>x = 50, y = 50, size_p = 5, dirX = 0, dirY = 0, color = ''#ff0000''\<rparr>,
              \<lparr>x = 100, y = 100, size_p = 10, dirX = 0, dirY = 0, color = ''#00ff00''\<rparr>,
              \<lparr>x = 105, y = 100, size_p = 10, dirX = 0, dirY = 0, color = ''#0000ff''\<rparr>] ! j) +
            size_p ([\<lparr>x = 50, y = 50, size_p = 5, dirX = 0, dirY = 0, color = ''#ff0000''\<rparr>,
              \<lparr>x = 100, y = 100, size_p = 10, dirX = 0, dirY = 0, color = ''#00ff00''\<rparr>,
              \<lparr>x = 105, y = 100, size_p = 10, dirX = 0, dirY = 0, color = ''#0000ff''\<rparr>] ! j)}))) \<and>
   findParticleWithCords
     [\<lparr>x = 50, y = 50, size_p = 5, dirX = 0, dirY = 0, color = ''#ff0000''\<rparr>,
      \<lparr>x = 100, y = 100, size_p = 10, dirX = 0, dirY = 0, color = ''#00ff00''\<rparr>,
      \<lparr>x = 105, y = 100, size_p = 10, dirX = 0, dirY = 0, color = ''#0000ff''\<rparr>] 0 0 = None"
proof -
  have f: "findParticleWithCords
     [\<lparr>x = 50, y = 50, size_p = 5, dirX = 0, dirY = 0, color = ''#ff0000''\<rparr>,
      \<lparr>x = 100, y = 100, size_p = 10, dirX = 0, dirY = 0, color = ''#00ff00''\<rparr>,
      \<lparr>x = 105, y = 100, size_p = 10, dirX = 0, dirY = 0, color = ''#0000ff''\<rparr>] 102 100
     = Some \<lparr>x = 100, y = 100, size_p = 10, dirX = 0, dirY = 0, color = ''#00ff00''\<rparr>"
    by (simp add: findParticleWithCords_def)
  have g: "findParticleWithCords
     [\<lparr>x = 50, y = 50, size_p = 5, dirX = 0, dirY = 0, color = ''#ff0000''\<rparr>,
      \<lparr>x = 100, y = 100, size_p = 10, dirX = 0, dirY = 0, color = ''#00ff00''\<rparr>,
      \<lparr>x = 105, y = 100, size_p = 10, dirX = 0, dirY = 0, color = ''#0000ff''\<rparr>] 0 0 = None"
    by (simp add: findParticleWithCords_def)
  from f findParticleWithCords_first
    [of "[\<lparr>x = 50, y = 50, size_p = 5, dirX = 0, dirY = 0, color = ''#ff0000''\<rparr>,
          \<lparr>x = 100, y = 100, size_p = 10, dirX = 0, dirY = 0, color = ''#00ff00''\<rparr>,
          \<lparr>x = 105, y = 100, size_p = 10, dirX = 0, dirY = 0, color = ''#0000ff''\<rparr>]"
        102 100 "\<lparr>x = 100, y = 100, size_p = 10, dirX = 0, dirY = 0, color = ''#00ff00''\<rparr>"]
  have "\<exists>i < length
       [\<lparr>x = 50, y = 50, size_p = 5, dirX = 0, dirY = 0, color = ''#ff0000''\<rparr>,
        \<lparr>x = 100, y = 100, size_p = 10, dirX = 0, dirY = 0, color = ''#00ff00''\<rparr>,
        \<lparr>x = 105, y = 100, size_p = 10, dirX = 0, dirY = 0, color = ''#0000ff''\<rparr>].
      [\<lparr>x = 50, y = 50, size_p = 5, dirX = 0, dirY = 0, color = ''#ff0000''\<rparr>,
       \<lparr>x = 100, y = 100, size_p = 10, dirX = 0, dirY = 0, color = ''#00ff00''\<rparr>,
       \<lparr>x = 105, y = 100, size_p = 10, dirX = 0, dirY = 0, color = ''#0000ff''\<rparr>] ! i
        = \<lparr>x = 100, y = 100, size_p = 10, dirX = 0, dirY = 0, color = ''#00ff00''\<rparr> \<and>
      (\<forall>j < i. \<not> ((102::real) \<in>
         {x ([\<lparr>x = 50, y = 50, size_p = 5, dirX = 0, dirY = 0, color = ''#ff0000''\<rparr>,
              \<lparr>x = 100, y = 100, size_p = 10, dirX = 0, dirY = 0, color = ''#00ff00''\<rparr>,
              \<lparr>x = 105, y = 100, size_p = 10, dirX = 0, dirY = 0, color = ''#0000ff''\<rparr>] ! j) -
            size_p ([\<lparr>x = 50, y = 50, size_p = 5, dirX = 0, dirY = 0, color = ''#ff0000''\<rparr>,
              \<lparr>x = 100, y = 100, size_p = 10, dirX = 0, dirY = 0, color = ''#00ff00''\<rparr>,
              \<lparr>x = 105, y = 100, size_p = 10, dirX = 0, dirY = 0, color = ''#0000ff''\<rparr>] ! j) ..
          x ([\<lparr>x = 50, y = 50, size_p = 5, dirX = 0, dirY = 0, color = ''#ff0000''\<rparr>,
              \<lparr>x = 100, y = 100, size_p = 10, dirX = 0, dirY = 0, color = ''#00ff00''\<rparr>,
              \<lparr>x = 105, y = 100, size_p = 10, dirX = 0, dirY = 0, color = ''#0000ff''\<rparr>] ! j) +
            size_p ([\<lparr>x = 50, y = 50, size_p = 5, dirX = 0, dirY = 0, color = ''#ff0000''\<rparr>,
              \<lparr>x = 100, y = 100, size_p = 10, dirX = 0, dirY = 0, color = ''#00ff00''\<rparr>,
              \<lparr>x = 105, y = 100, size_p = 10, dirX = 0, dirY = 0, color = ''#0000ff''\<rparr>] ! j)} \<and>
         (100::real) \<in>
         {y ([\<lparr>x = 50, y = 50, size_p = 5, dirX = 0, dirY = 0, color = ''#ff0000''\<rparr>,
              \<lparr>x = 100, y = 100, size_p = 10, dirX = 0, dirY = 0, color = ''#00ff00''\<rparr>,
              \<lparr>x = 105, y = 100, size_p = 10, dirX = 0, dirY = 0, color = ''#0000ff''\<rparr>] ! j) -
            size_p ([\<lparr>x = 50, y = 50, size_p = 5, dirX = 0, dirY = 0, color = ''#ff0000''\<rparr>,
              \<lparr>x = 100, y = 100, size_p = 10, dirX = 0, dirY = 0, color = ''#00ff00''\<rparr>,
              \<lparr>x = 105, y = 100, size_p = 10, dirX = 0, dirY = 0, color = ''#0000ff''\<rparr>] ! j) ..
          y ([\<lparr>x = 50, y = 50, size_p = 5, dirX = 0, dirY = 0, color = ''#ff0000''\<rparr>,
              \<lparr>x = 100, y = 100, size_p = 10, dirX = 0, dirY = 0, color = ''#00ff00''\<rparr>,
              \<lparr>x = 105, y = 100, size_p = 10, dirX = 0, dirY = 0, color = ''#0000ff''\<rparr>] ! j) +
            size_p ([\<lparr>x = 50, y = 50, size_p = 5, dirX = 0, dirY = 0, color = ''#ff0000''\<rparr>,
              \<lparr>x = 100, y = 100, size_p = 10, dirX = 0, dirY = 0, color = ''#00ff00''\<rparr>,
              \<lparr>x = 105, y = 100, size_p = 10, dirX = 0, dirY = 0, color = ''#0000ff''\<rparr>] ! j)}))"
    by blast
  with f g show ?thesis by blast
qed

subsection \<open>Symmetry of the collision test (C9)\<close>

text \<open>
  C9. The test of \<open>a\<close> against \<open>b\<close> (threshold \<open>size b + size a\<close>) holds exactly when the
  test of \<open>b\<close> against \<open>a\<close> holds, and both hold when the distance of the centres is below
  the sum of the radii. What \<open>a\<close> accumulates is computed from \<open>a\<close> and from the position
  and the radius of \<open>b\<close> only: the velocity of \<open>b\<close> plays no part in it.
\<close>

theorem collision_trigger_symmetric:
  "(collides a b (size_p b) \<longleftrightarrow> collides b a (size_p a)) \<and>
   (sqrt ((x a - x b)\<^sup>2 + (y a - y b)\<^sup>2) < size_p a + size_p b \<longrightarrow>
      collides a b (size_p b) \<and> collides b a (size_p a)) \<and>
   collideWithRadius a (b\<lparr>dirX := u, dirY := v\<rparr>) (size_p b) = collideWithRadius a b (size_p b)"
proof -
  have e: "(x b - x a) * (x b - x a) + (y b - y a) * (y b - y a) = (x a - x b)\<^sup>2 + (y a - y b)\<^sup>2"
    by (simp add: power2_eq_square algebra_simps)
  have e': "(x a - x b) * (x a - x b) + (y a - y b) * (y a - y b) = (x a - x b)\<^sup>2 + (y a - y b)\<^sup>2"
    by (simp add: power2_eq_square)
  show ?thesis
    by (simp add: collides_def Let_def e e' add.commute collideWithRadius_def)
qed

theorem collision_trigger_symmetric_witness:
  "sqrt ((x \<lparr>x = 100, y = 100, size_p = 10, dirX = 0, dirY = 0, color = ''#ff0000''\<rparr> -
          x \<lparr>x = 110, y = 100, size_p = 5, dirX = 0, dirY = 0, color = ''#00ff00''\<rparr>)\<^sup>2 +
         (y \<lparr>x = 100, y = 100, size_p = 10, dirX = 0, dirY = 0, color = ''#ff0000''\<rparr> -
          y \<lparr>x = 110, y = 100, size_p = 5, dirX = 0, dirY = 0, color = ''#00ff00''\<rparr>)\<^sup>2)
     < size_p \<lparr>x = 100, y = 100, size_p = 10, dirX = 0, dirY = 0, color = ''#ff0000''\<rparr> +
       size_p \<lparr>x = 110, y = 100, size_p = 5, dirX = 0, dirY = 0, color = ''#00ff00''\<rparr> \<and>
   collides \<lparr>x = 100, y = 100, size_p = 10, dirX = 0, dirY = 0, color = ''#ff0000''\<rparr>
            \<lparr>x = 110, y = 100, size_p = 5, dirX = 0, dirY = 0, color = ''#00ff00''\<rparr> 5 \<and>
   collides \<lparr>x = 110, y = 100, size_p = 5, dirX = 0, dirY = 0, color = ''#00ff00''\<rparr>
            \<lparr>x = 100, y = 100, size_p = 10, dirX = 0, dirY = 0, color = ''#ff0000''\<rparr> 10"
  using collision_trigger_symmetric
    [of "\<lparr>x = 100, y = 100, size_p = 10, dirX = 0, dirY = 0, color = ''#ff0000''\<rparr>"
        "\<lparr>x = 110, y = 100, size_p = 5, dirX = 0, dirY = 0, color = ''#00ff00''\<rparr>" 0 0]
  by simp

subsection \<open>The frame of \<^verbatim>\<open>collideWithRadius\<close> (C10)\<close>

text \<open>
  C10. \<open>collideWithRadius\<close> leaves the position, the radius and the colour as they
  are, and it leaves the whole particle as it is when the distance to the point is at
  least \<open>collisionRadius + size\<close>. It is a total function: there is no error to raise.
\<close>

theorem collideWithRadius_frame_and_miss:
  "x (collideWithRadius this cords collisionRadius) = x this \<and>
   y (collideWithRadius this cords collisionRadius) = y this \<and>
   size_p (collideWithRadius this cords collisionRadius) = size_p this \<and>
   color (collideWithRadius this cords collisionRadius) = color this \<and>
   (sqrt ((x cords - x this) * (x cords - x this) + (y cords - y this) * (y cords - y this))
      \<ge> collisionRadius + size_p this \<longrightarrow>
    collideWithRadius this cords collisionRadius = this)"
  by (simp add: collideWithRadius_collides collides_def Let_def)

theorem collideWithRadius_frame_and_miss_witness:
  "sqrt ((x \<lparr>x = 150, y = 100\<rparr> -
          x \<lparr>x = 100, y = 100, size_p = 10, dirX = 3, dirY = 4, color = ''#ff0000''\<rparr>) *
         (x \<lparr>x = 150, y = 100\<rparr> -
          x \<lparr>x = 100, y = 100, size_p = 10, dirX = 3, dirY = 4, color = ''#ff0000''\<rparr>) +
         (y \<lparr>x = 150, y = 100\<rparr> -
          y \<lparr>x = 100, y = 100, size_p = 10, dirX = 3, dirY = 4, color = ''#ff0000''\<rparr>) *
         (y \<lparr>x = 150, y = 100\<rparr> -
          y \<lparr>x = 100, y = 100, size_p = 10, dirX = 3, dirY = 4, color = ''#ff0000''\<rparr>))
     \<ge> 10 + size_p \<lparr>x = 100, y = 100, size_p = 10, dirX = 3, dirY = 4, color = ''#ff0000''\<rparr> \<and>
   collideWithRadius \<lparr>x = 100, y = 100, size_p = 10, dirX = 3, dirY = 4, color = ''#ff0000''\<rparr>
     \<lparr>x = 150, y = 100\<rparr> 10
     = \<lparr>x = 100, y = 100, size_p = 10, dirX = 3, dirY = 4, color = ''#ff0000''\<rparr>"
  using collideWithRadius_frame_and_miss
    [of "\<lparr>x = 100, y = 100, size_p = 10, dirX = 3, dirY = 4, color = ''#ff0000''\<rparr>"
        "\<lparr>x = 150, y = 100\<rparr>" 10]
  by simp

end
